theory Spec2Isabelle
  imports Main "HOL-Library.Word" "HOL-Library.Char_ord" "HOL-Library.List_Lexorder"
    "HOL-Library.Multiset" "HOL-Library.AList"
begin

unbundle bit_operations_syntax

section \<open>Go strings and the string helpers the program calls\<close>

text \<open>
  A Go \<open>string\<close> and a \<open>[]byte\<close> are byte sequences; \<open>len\<close> counts bytes. Both are
  modelled as \<^typ>\<open>string\<close>, whose characters are bytes. The helpers below are the
  functions of package \<open>strings\<close> that the program calls, restricted to the shapes of
  argument it passes them.
\<close>

definition HasSuffix :: "string \<Rightarrow> string \<Rightarrow> bool" where
  "HasSuffix s suf = (length suf \<le> length s \<and> drop (length s - length suf) s = suf)"

definition TrimSuffix :: "string \<Rightarrow> string \<Rightarrow> string" where
  "TrimSuffix s suf = (if HasSuffix s suf then take (length s - length suf) s else s)"

text \<open>\<open>strings.Contains\<close>: does \<open>sub\<close> occur in \<open>s\<close> as a contiguous block.\<close>

fun Contains :: "string \<Rightarrow> string \<Rightarrow> bool" where
  "Contains [] sub = (sub = [])"
| "Contains (c # cs) sub = (if take (length sub) (c # cs) = sub then True else Contains cs sub)"

text \<open>
  \<open>strings.LastIndex(s, sep)\<close> for a separator of one byte: the index of its last
  occurrence, or \<open>-1\<close>.
\<close>

definition LastIndex :: "string \<Rightarrow> char \<Rightarrow> int" where
  "LastIndex s sep =
     (if sep \<in> set s then int (length s) - 1 - int (length (takeWhile (\<lambda>c. c \<noteq> sep) (rev s)))
      else -1)"

text \<open>
  \<open>strings.ReplaceAll(s, old, new)\<close> for an \<open>old\<close> of one byte: every occurrence is
  replaced by \<open>new\<close>.
\<close>

definition ReplaceAll :: "string \<Rightarrow> char \<Rightarrow> string \<Rightarrow> string" where
  "ReplaceAll s old new = concat (map (\<lambda>c. if c = old then new else [c]) s)"

section \<open>Package utils: the filename codec\<close>

subsection \<open>The regular expression of GenerateFilename\<close>

text \<open>
  Go's \<open>regexp\<close> reads its input rune by rune with \<open>utf8.DecodeRuneInString\<close>: a
  well-formed UTF-8 sequence of two to four bytes is one rune, and every byte that starts no
  well-formed sequence is one rune (U+FFFD) of width 1. \<open>DecodeRune_width\<close> is the width of
  the first rune of a string, after the table of package \<open>unicode/utf8\<close>.
\<close>

definition byte_in :: "char \<Rightarrow> nat \<Rightarrow> nat \<Rightarrow> bool" where
  "byte_in c lo hi = (lo \<le> of_char c \<and> of_char c \<le> hi)"

definition second_lo :: "nat \<Rightarrow> nat" where
  "second_lo b = (if b = 0xE0 then 0xA0 else if b = 0xF0 then 0x90 else 0x80)"

definition second_hi :: "nat \<Rightarrow> nat" where
  "second_hi b = (if b = 0xED then 0x9F else if b = 0xF4 then 0x8F else 0xBF)"

fun DecodeRune_width :: "string \<Rightarrow> nat" where
  "DecodeRune_width [] = 0"
| "DecodeRune_width (c # cs) =
     (let b = (of_char c :: nat) in
      if b < 0xC2 then 1
      else if b \<le> 0xDF then
        (case cs of
           c1 # _ \<Rightarrow> if byte_in c1 0x80 0xBF then 2 else 1
         | _ \<Rightarrow> 1)
      else if b \<le> 0xEF then
        (case cs of
           c1 # c2 # _ \<Rightarrow>
             if byte_in c1 (second_lo b) (second_hi b) \<and> byte_in c2 0x80 0xBF then 3 else 1
         | _ \<Rightarrow> 1)
      else if b \<le> 0xF4 then
        (case cs of
           c1 # c2 # c3 # _ \<Rightarrow>
             if byte_in c1 (second_lo b) (second_hi b) \<and> byte_in c2 0x80 0xBF \<and>
                byte_in c3 0x80 0xBF
             then 4 else 1
         | _ \<Rightarrow> 1)
      else 1)"

text \<open>The character class \<open>[a-zA-Z0-9\-_]\<close>, whose complement the expression matches.\<close>

definition word_char :: "char \<Rightarrow> bool" where
  "word_char c =
     (byte_in c 0x61 0x7A \<or> byte_in c 0x41 0x5A \<or> byte_in c 0x30 0x39 \<or>
      c = CHR ''-'' \<or> c = CHR ''_'')"

text \<open>
  \<open>regexp.MustCompile(`[^a-zA-Z0-9\-_]`).ReplaceAllString(s, "_")\<close>: every rune outside
  the class, of whatever width, becomes one underscore.
\<close>

function ReplaceAllString :: "string \<Rightarrow> string" where
  "ReplaceAllString [] = []"
| "ReplaceAllString (c # cs) =
     (if word_char c then c # ReplaceAllString cs
      else CHR ''_'' # ReplaceAllString (drop (DecodeRune_width (c # cs) - 1) cs))"
  by pat_completeness auto
termination
  by (relation "measure length") auto

text \<open>
  \<open>strings.ToLower\<close> on a string of ASCII bytes, which is what \<open>ReplaceAllString\<close> returns
  (lemma \<open>ReplaceAllString_word_chars\<close>): the upper-case letters move to lower case.
\<close>

definition lower_byte :: "char \<Rightarrow> char" where
  "lower_byte c = (if byte_in c 0x41 0x5A then char_of (of_char c + (32::nat)) else c)"

definition ToLower :: "string \<Rightarrow> string" where
  "ToLower s = map lower_byte s"

subsection \<open>The creation instant and its layout\<close>

text \<open>
  A \<open>time.Time\<close> is modelled by its civil fields. \<open>Format "20060102_150405"\<close> writes the
  year on at least four digits and each other field on at least two, zero-padded.
\<close>

record Time =
  year :: nat
  month :: nat
  day :: nat
  hour :: nat
  minute :: nat
  second :: nat
  nanosecond :: nat

definition digit_char :: "nat \<Rightarrow> char" where
  "digit_char d = char_of (48 + d mod 10)"

fun decimal :: "nat \<Rightarrow> string" where
  "decimal n = (if n < 10 then [digit_char n] else decimal (n div 10) @ [digit_char n])"

declare decimal.simps [simp del]

definition zero_pad :: "nat \<Rightarrow> nat \<Rightarrow> string" where
  "zero_pad w n = replicate (w - length (decimal n)) (CHR ''0'') @ decimal n"

definition Format_date :: "Time \<Rightarrow> string" where
  "Format_date t = zero_pad 4 (year t) @ zero_pad 2 (month t) @ zero_pad 2 (day t)"

definition Format_clock :: "Time \<Rightarrow> string" where
  "Format_clock t = zero_pad 2 (hour t) @ zero_pad 2 (minute t) @ zero_pad 2 (second t)"

definition Format_stamp :: "Time \<Rightarrow> string" where
  "Format_stamp t = Format_date t @ ''_'' @ Format_clock t"

subsection \<open>GenerateFilename and ParseFilenameToSiteName\<close>

definition cleanName :: "string \<Rightarrow> string" where
  "cleanName siteName =
     (let cleaned = ToLower (ReplaceAllString siteName)
      in if length cleaned > 20 then take 20 cleaned else cleaned)"

text \<open>\<open>now\<close> is the reading of \<open>time.Now()\<close> inside the call.\<close>

definition GenerateFilename :: "Time \<Rightarrow> string \<Rightarrow> string" where
  "GenerateFilename now siteName = cleanName siteName @ ''_'' @ Format_stamp now"

definition ParseFilenameToSiteName :: "string \<Rightarrow> string" where
  "ParseFilenameToSiteName filename0 =
     (let filename = (if HasSuffix filename0 ''.gpg'' then TrimSuffix filename0 ''.gpg''
                      else filename0);
          lastUnderscore = LastIndex filename (CHR ''_'')
      in if lastUnderscore = -1 then ReplaceAll filename (CHR ''_'') '' ''
         else
           let potentialTimestamp = drop (nat (lastUnderscore + 1)) filename
           in if length potentialTimestamp = 15 \<and> Contains potentialTimestamp ''_''
              then ReplaceAll (take (nat lastUnderscore) filename) (CHR ''_'') '' ''
              else ReplaceAll filename (CHR ''_'') '' '')"

section \<open>Errors\<close>

text \<open>
  A Go \<open>error\<close> is a value. The constructors name the errors the program makes itself
  (\<open>fmt.Errorf\<close>, with the wrapped error when the format has one) and the failures of the
  operating system and of the libraries it calls.
\<close>

datatype error =
    Errorf string
  | Wrap string error
  | ErrNotExist
  | ErrIsDir
  | ErrNotDir
  | ErrPermission
  | ErrNotEmpty
  | ErrInvalid
  | ErrReader
  | ErrCipher
  | ErrSyntax
  | ErrMarshal
  | ErrProgram

section \<open>Package utils: the password generator\<close>

record PasswordOptions =
  Length :: int
  IncludeUppercase :: bool
  IncludeLowercase :: bool
  IncludeNumbers :: bool
  IncludeSymbols :: bool
  ExcludeAmbiguous :: bool

definition uppercaseChars :: string where
  "uppercaseChars = ''ABCDEFGHIJKLMNOPQRSTUVWXYZ''"

definition lowercaseChars :: string where
  "lowercaseChars = ''abcdefghijklmnopqrstuvwxyz''"

definition numberChars :: string where
  "numberChars = ''0123456789''"

definition symbolChars :: string where
  "symbolChars = ''!@#$%^&*()-_=+[]{}|;:,.<>?''"

definition ambiguousChars :: string where
  "ambiguousChars = ''0O1lI''"

subsection \<open>The entropy source\<close>

text \<open>
  \<open>rand.Int(rand.Reader, max)\<close> returns a value in \<open>[0, max)\<close>, or the error of the
  reader. The source is the stream of what the successive calls meet: \<open>None\<close> where the
  reader fails, \<open>Some r\<close> where it delivers, \<open>r\<close> being reduced into the range. Every
  caller passes a positive bound.
\<close>

type_synonym entropy = "nat \<Rightarrow> nat option"

definition rand_Int :: "entropy \<Rightarrow> nat \<Rightarrow> (error + nat) \<times> entropy" where
  "rand_Int src bound =
     (case src 0 of
        None \<Rightarrow> (Inl ErrReader, \<lambda>i. src (Suc i))
      | Some r \<Rightarrow> (Inr (r mod bound), \<lambda>i. src (Suc i)))"

definition getRandomChar :: "string \<Rightarrow> entropy \<Rightarrow> (error + string) \<times> entropy" where
  "getRandomChar charset src =
     (if length charset = 0 then (Inl (Errorf ''charset is empty''), src)
      else
        case rand_Int src (length charset) of
          (Inl err, src') \<Rightarrow> (Inl err, src')
        | (Inr randomIndex, src') \<Rightarrow> (Inr [charset ! randomIndex], src'))"

definition removeAmbiguousChars :: "string \<Rightarrow> string" where
  "removeAmbiguousChars charset = fold (\<lambda>ambiguous result. ReplaceAll result ambiguous []) ambiguousChars charset"

text \<open>
  \<open>shuffleBytes\<close>: the loop \<open>for i := len(slice) - 1; i > 0; i--\<close>, as a recursion on
  \<open>i\<close>. On an error of the reader the slice (\<open>buf\<close>) stays as far as it was
  shuffled.
\<close>

fun shuffle_loop :: "nat \<Rightarrow> string \<Rightarrow> entropy \<Rightarrow> (error option \<times> string) \<times> entropy" where
  "shuffle_loop 0 buf src = ((None, buf), src)"
| "shuffle_loop (Suc k) buf src =
     (case rand_Int src (Suc k + 1) of
        (Inl err, src') \<Rightarrow> ((Some err, buf), src')
      | (Inr j, src') \<Rightarrow> shuffle_loop k (buf[Suc k := buf ! j, j := buf ! Suc k]) src')"

definition shuffleBytes :: "string \<Rightarrow> entropy \<Rightarrow> (error option \<times> string) \<times> entropy" where
  "shuffleBytes buf src = shuffle_loop (length buf - 1) buf src"

subsection \<open>GeneratePassword\<close>

text \<open>
  \<open>chars := uppercaseChars; if opts.ExcludeAmbiguous { chars = removeAmbiguousChars(chars) }\<close>,
  and the same for the lower-case letters and the digits.
\<close>

definition class_chars :: "bool \<Rightarrow> string \<Rightarrow> string" where
  "class_chars exclude chars = (if exclude then removeAmbiguousChars chars else chars)"

text \<open>
  The four blocks of \<open>GeneratePassword\<close> that add a class to the character set and draw its
  guaranteed character are one function here: \<open>chars\<close> is the class as the block uses it
  (the ambiguous characters removed where the block removes them). A failed draw is
  dropped, as the source drops it.
\<close>

definition add_class ::
  "string \<Rightarrow> string \<times> string \<times> entropy \<Rightarrow> string \<times> string \<times> entropy" where
  "add_class chars acc =
     (case acc of (charset, guaranteedChars, src) \<Rightarrow>
        (case getRandomChar chars src of
           (Inr char, src') \<Rightarrow> (charset @ chars, guaranteedChars @ char, src')
         | (Inl err, src') \<Rightarrow> (charset @ chars, guaranteedChars, src')))"

text \<open>The loop that writes the guaranteed characters to the front of the buffer.\<close>

definition place_guaranteed :: "string \<Rightarrow> string \<Rightarrow> string" where
  "place_guaranteed guaranteedChars password =
     fold (\<lambda>i pw. if i < length pw then pw[i := guaranteedChars ! i] else pw)
       [0..<length guaranteedChars] password"

text \<open>The loop \<open>for i := len(guaranteedChars); i < opts.Length; i++\<close>.\<close>

function fill_loop ::
  "string \<Rightarrow> nat \<Rightarrow> nat \<Rightarrow> string \<Rightarrow> entropy \<Rightarrow> (error + string) \<times> entropy" where
  "fill_loop charset i n password src =
     (if i < n then
        (case getRandomChar charset src of
           (Inl err, src') \<Rightarrow> (Inl (Wrap ''failed to generate random character: '' err), src')
         | (Inr randomChar, src') \<Rightarrow>
             fill_loop charset (Suc i) n (password[i := hd randomChar]) src')
      else (Inr password, src))"
  by pat_completeness auto
termination
  by (relation "measure (\<lambda>(charset, i, n, password, src). n - i)") auto

declare fill_loop.simps [simp del]

definition GeneratePassword :: "PasswordOptions \<Rightarrow> entropy \<Rightarrow> (error + string) \<times> entropy" where
  "GeneratePassword opts src =
     (if Length opts < 8 \<or> Length opts > 64 then
        (Inl (Errorf ''password length must be between 8 and 64 characters''), src)
      else if \<not> IncludeUppercase opts \<and> \<not> IncludeLowercase opts \<and> \<not> IncludeNumbers opts \<and>
              \<not> IncludeSymbols opts then
        (Inl (Errorf ''at least one character type must be included''), src)
      else
        let acc0 = ([], [], src);
            acc1 = (if IncludeUppercase opts then
                      add_class (class_chars (ExcludeAmbiguous opts) uppercaseChars) acc0
                    else acc0);
            acc2 = (if IncludeLowercase opts then
                      add_class (class_chars (ExcludeAmbiguous opts) lowercaseChars) acc1
                    else acc1);
            acc3 = (if IncludeNumbers opts then
                      add_class (class_chars (ExcludeAmbiguous opts) numberChars) acc2
                    else acc2);
            acc4 = (if IncludeSymbols opts then add_class symbolChars acc3 else acc3)
        in case acc4 of (charset, guaranteedChars, src4) \<Rightarrow>
             (let password = place_guaranteed guaranteedChars
                               (replicate (nat (Length opts)) (CHR 0x00))
              in case fill_loop charset (length guaranteedChars) (nat (Length opts)) password src4 of
                   (Inl err, src5) \<Rightarrow> (Inl err, src5)
                 | (Inr filled, src5) \<Rightarrow>
                     (case shuffleBytes filled src5 of
                        ((Some err, shuffled), src6) \<Rightarrow>
                          (Inl (Wrap ''failed to shuffle password: '' err), src6)
                      | ((None, shuffled), src6) \<Rightarrow> (Inr shuffled, src6))))"

section \<open>The operating system: files and directories\<close>

text \<open>
  The file system is a table from absolute paths to nodes. A node is a regular file with
  its permission bits and its bytes, or a directory with its permission bits. There are
  no symbolic links.

  The process is not the superuser and owns every node of the table, so that the owner
  bits of a node decide what the process may do with it: \<open>0400\<close> to read a file or list a
  directory, \<open>0200\<close> to write a file or to add and remove the entries of a directory,
  \<open>0100\<close> to pass through a directory. Owning a node does not lift its bits. The root
  directory \<open>/\<close> is not in the table: everyone may list it and pass through it, the
  process may not write to it.
\<close>

type_synonym FileMode = "32 word"

datatype node = File FileMode string | Directory FileMode

type_synonym filesystem = "(string \<times> node) list"

record DirEntry =
  Name :: string
  IsDir :: bool

definition owner_read :: "FileMode \<Rightarrow> bool" where
  "owner_read m = (m AND 0x100 \<noteq> 0)"

definition owner_write :: "FileMode \<Rightarrow> bool" where
  "owner_write m = (m AND 0x80 \<noteq> 0)"

definition owner_search :: "FileMode \<Rightarrow> bool" where
  "owner_search m = (m AND 0x40 \<noteq> 0)"

subsection \<open>Names\<close>

text \<open>
  The table is keyed by names in canonical form: absolute, with no empty component and
  no component \<open>.\<close> or \<open>..\<close>. These are the names the program makes: every one is
  \<open>FolderLocation\<close>, a slash, a key and \<open>.gpg\<close>, where \<open>FolderLocation\<close> is made of \<open>$HOME\<close> and
  the key is \<open>.checker/init\<close>, a key of \<open>GenerateFilename\<close> or the name of a listed file.
  The model does not follow other names (relative ones, or ones with a component \<open>.\<close>,
  \<open>..\<close> or an empty one): a system call on such a name is refused with \<open>ErrInvalid\<close>, and
  nothing is stated about it.
\<close>

fun split_slash :: "string \<Rightarrow> string list" where
  "split_slash [] = [[]]"
| "split_slash (c # cs) =
     (if c = CHR ''/'' then [] # split_slash cs
      else (case split_slash cs of
              x # xs \<Rightarrow> (c # x) # xs
            | [] \<Rightarrow> [[c]]))"

definition plain_name :: "string \<Rightarrow> bool" where
  "plain_name n = (n \<noteq> [] \<and> n \<noteq> ''.'' \<and> n \<noteq> ''..'')"

definition canonical :: "string \<Rightarrow> bool" where
  "canonical path =
     (case split_slash path of
        [] \<Rightarrow> False
      | first # names \<Rightarrow> first = [] \<and> names \<noteq> [] \<and> list_all plain_name names)"

definition dirname :: "string \<Rightarrow> string" where
  "dirname path = rev (drop 1 (dropWhile (\<lambda>c. c \<noteq> CHR ''/'') (rev path)))"

text \<open>
  The directories above a canonical name, outermost first, the root left out:
  \<open>/home\<close> and \<open>/home/user\<close> for \<open>/home/user/x\<close>.
\<close>

definition ancestors :: "string \<Rightarrow> string list" where
  "ancestors path = map (\<lambda>i. take i path) (filter (\<lambda>i. path ! i = CHR ''/'') [1..<length path])"

text \<open>
  Walking down to a name: each directory above it must exist, be a directory and let the
  process pass (\<open>ENOENT\<close>, \<open>ENOTDIR\<close>, \<open>EACCES\<close>).
\<close>

fun traverse :: "filesystem \<Rightarrow> string list \<Rightarrow> error option" where
  "traverse fs [] = None"
| "traverse fs (d # ds) =
     (case map_of fs d of
        None \<Rightarrow> Some ErrNotExist
      | Some (File m bytes) \<Rightarrow> Some ErrNotDir
      | Some (Directory m) \<Rightarrow> if owner_search m then traverse fs ds else Some ErrPermission)"

text \<open>What a name denotes, once the walk down to it has succeeded: a node, or nothing yet.\<close>

definition os_lookup :: "filesystem \<Rightarrow> string \<Rightarrow> error + node option" where
  "os_lookup fs name =
     (if \<not> canonical name then Inl ErrInvalid
      else case traverse fs (ancestors name) of
             Some err \<Rightarrow> Inl err
           | None \<Rightarrow> Inr (map_of fs name))"

text \<open>The directory that holds a name; the root stands for itself, read-only.\<close>

definition parent_node :: "filesystem \<Rightarrow> string \<Rightarrow> node option" where
  "parent_node fs name =
     (if dirname name = [] then Some (Directory 0x16D) else map_of fs (dirname name))"

subsection \<open>The system calls\<close>

text \<open>
  \<open>os.ReadFile\<close> opens for reading: the file must carry the owner-read bit.
\<close>

definition os_ReadFile :: "filesystem \<Rightarrow> string \<Rightarrow> error + string" where
  "os_ReadFile fs name =
     (case os_lookup fs name of
        Inl err \<Rightarrow> Inl err
      | Inr None \<Rightarrow> Inl ErrNotExist
      | Inr (Some (Directory m)) \<Rightarrow> Inl ErrIsDir
      | Inr (Some (File m bytes)) \<Rightarrow> if owner_read m then Inr bytes else Inl ErrPermission)"

text \<open>
  \<open>os.WriteFile(name, data, perm)\<close> opens with \<open>O_WRONLY|O_CREATE|O_TRUNC\<close>. A file that
  exists must carry the owner-write bit; it keeps its mode and gets the new bytes. A file
  that does not exist is created, in a directory that the process may write to, with
  \<open>perm\<close> less the bits of the umask of the process. A device that is full or fails is
  not modelled.
\<close>

definition os_WriteFile ::
  "filesystem \<Rightarrow> FileMode \<Rightarrow> string \<Rightarrow> string \<Rightarrow> FileMode \<Rightarrow> error option \<times> filesystem" where
  "os_WriteFile fs um name bytes perm =
     (case os_lookup fs name of
        Inl err \<Rightarrow> (Some err, fs)
      | Inr (Some (Directory m)) \<Rightarrow> (Some ErrIsDir, fs)
      | Inr (Some (File m old)) \<Rightarrow>
          if owner_write m then (None, AList.update name (File m bytes) fs)
          else (Some ErrPermission, fs)
      | Inr None \<Rightarrow>
          (case parent_node fs name of
             None \<Rightarrow> (Some ErrNotExist, fs)
           | Some (File m old) \<Rightarrow> (Some ErrNotDir, fs)
           | Some (Directory m) \<Rightarrow>
               if owner_write m
               then (None, AList.update name (File (perm AND NOT um) bytes) fs)
               else (Some ErrPermission, fs)))"

text \<open>\<open>os.Stat\<close>: the node a name denotes.\<close>

definition os_Stat :: "filesystem \<Rightarrow> string \<Rightarrow> error + node" where
  "os_Stat fs name =
     (case os_lookup fs name of
        Inl err \<Rightarrow> Inl err
      | Inr None \<Rightarrow> Inl ErrNotExist
      | Inr (Some n) \<Rightarrow> Inr n)"

text \<open>
  \<open>os.ReadDir\<close> lists the entries directly under a directory that the process may read,
  sorted by name. \<open>child_name dir path\<close> is the name under which \<open>path\<close> is listed in
  \<open>dir\<close>, if it is.
\<close>

definition child_name :: "string \<Rightarrow> string \<Rightarrow> string option" where
  "child_name dir path =
     (let prefix = dir @ ''/''; base = drop (length prefix) path
      in if take (length prefix) path = prefix \<and> plain_name base \<and> CHR ''/'' \<notin> set base
         then Some base else None)"

definition is_Directory :: "node \<Rightarrow> bool" where
  "is_Directory n = (case n of Directory m \<Rightarrow> True | File m bytes \<Rightarrow> False)"

definition dir_entry :: "filesystem \<Rightarrow> string \<Rightarrow> string \<Rightarrow> DirEntry option" where
  "dir_entry fs dir path =
     (case child_name dir path of
        None \<Rightarrow> None
      | Some base \<Rightarrow>
          (case map_of fs path of
             None \<Rightarrow> None
           | Some n \<Rightarrow> Some \<lparr>Name = base, IsDir = is_Directory n\<rparr>))"

definition os_ReadDir :: "filesystem \<Rightarrow> string \<Rightarrow> error + DirEntry list" where
  "os_ReadDir fs name =
     (case os_lookup fs name of
        Inl err \<Rightarrow> Inl err
      | Inr None \<Rightarrow> Inl ErrNotExist
      | Inr (Some (File m bytes)) \<Rightarrow> Inl ErrNotDir
      | Inr (Some (Directory m)) \<Rightarrow>
          if owner_read m
          then Inr (sort_key Name (List.map_filter (dir_entry fs name) (remdups (map fst fs))))
          else Inl ErrPermission)"

text \<open>
  \<open>os.Remove\<close> takes an entry out of its directory, which the process must be allowed to
  write to; a directory that still has entries is not removed (\<open>ENOTEMPTY\<close>).
\<close>

definition has_entries :: "filesystem \<Rightarrow> string \<Rightarrow> bool" where
  "has_entries fs dir = list_ex (\<lambda>path. child_name dir path \<noteq> None) (map fst fs)"

definition os_Remove :: "filesystem \<Rightarrow> string \<Rightarrow> error option \<times> filesystem" where
  "os_Remove fs name =
     (case os_lookup fs name of
        Inl err \<Rightarrow> (Some err, fs)
      | Inr None \<Rightarrow> (Some ErrNotExist, fs)
      | Inr (Some n) \<Rightarrow>
          (case parent_node fs name of
             None \<Rightarrow> (Some ErrNotExist, fs)
           | Some (File m old) \<Rightarrow> (Some ErrNotDir, fs)
           | Some (Directory m) \<Rightarrow>
               if \<not> owner_write m then (Some ErrPermission, fs)
               else if is_Directory n \<and> has_entries fs name then (Some ErrNotEmpty, fs)
               else (None, AList.delete name fs)))"

section \<open>Package fileio: the store\<close>

record PasswordFolder =
  FolderLocation :: string
  Dirs :: "DirEntry list"
  InitCheck :: bool
  Password :: string

text \<open>
  \<open>types.Options\<close>, with the fields \<open>main\<close> gives it. The program has one
  \<open>PasswordFolder\<close> and one \<open>Options\<close>, which the menu and the encryption functions share
  by pointer: the state holds one copy of each, next to the file system, the umask of the
  process, the lines that package \<open>menus\<close> prints itself on standard output (what the
  terminal programs draw is not kept), and the clock (\<open>time.Now()\<close> reads \<open>clock\<close> at
  \<open>ticks\<close> and advances \<open>ticks\<close>).
\<close>

record Options =
  Quit :: bool
  LoggedIn :: bool
  ErrorMessage :: string

record state =
  passwordFolder :: PasswordFolder
  options :: Options
  files :: filesystem
  umask :: FileMode
  stdout :: "string list"
  clock :: "nat \<Rightarrow> Time"
  ticks :: nat

definition time_Now :: "state \<Rightarrow> Time \<times> state" where
  "time_Now st = (clock st (ticks st), st\<lparr>ticks := Suc (ticks st)\<rparr>)"

definition set_Password :: "string \<Rightarrow> state \<Rightarrow> state" where
  "set_Password p st = st\<lparr>passwordFolder := (passwordFolder st)\<lparr>Password := p\<rparr>\<rparr>"

definition set_InitCheck :: "bool \<Rightarrow> state \<Rightarrow> state" where
  "set_InitCheck b st = st\<lparr>passwordFolder := (passwordFolder st)\<lparr>InitCheck := b\<rparr>\<rparr>"

definition set_ErrorMessage :: "string \<Rightarrow> state \<Rightarrow> state" where
  "set_ErrorMessage m st = st\<lparr>options := (options st)\<lparr>ErrorMessage := m\<rparr>\<rparr>"

definition set_Quit :: "bool \<Rightarrow> state \<Rightarrow> state" where
  "set_Quit b st = st\<lparr>options := (options st)\<lparr>Quit := b\<rparr>\<rparr>"

definition print :: "string \<Rightarrow> state \<Rightarrow> state" where
  "print line st = st\<lparr>stdout := stdout st @ [line]\<rparr>"

text \<open>The path \<open>fmt.Sprintf("%s/%s.gpg", pf.FolderLocation, fileName)\<close>.\<close>

definition store_path :: "PasswordFolder \<Rightarrow> string \<Rightarrow> string" where
  "store_path pf fileName = FolderLocation pf @ ''/'' @ fileName @ ''.gpg''"

text \<open>The permission \<open>0666\<close> (octal) that \<open>WriteToFile\<close> passes to \<open>os.WriteFile\<close>.\<close>

definition perm_0666 :: FileMode where
  "perm_0666 = 0x1B6"

text \<open>\<open>WriteToFile\<close>; the line it logs on standard error when the write fails is not kept.\<close>

definition WriteToFile :: "string \<Rightarrow> string \<Rightarrow> state \<Rightarrow> error option \<times> state" where
  "WriteToFile fileName input st =
     (case os_WriteFile (files st) (umask st) (store_path (passwordFolder st) fileName) input
             perm_0666 of
        (Some err, fs') \<Rightarrow> (Some err, st\<lparr>files := fs'\<rparr>)
      | (None, fs') \<Rightarrow> (None, st\<lparr>files := fs'\<rparr>))"

definition ReadFromFile :: "string \<Rightarrow> state \<Rightarrow> error + string" where
  "ReadFromFile fileName st =
     (case os_ReadFile (files st) (store_path (passwordFolder st) fileName) of
        Inl err \<Rightarrow> Inl err
      | Inr bytes \<Rightarrow> Inr bytes)"

definition RefreshDirectoryListing :: "state \<Rightarrow> error option \<times> state" where
  "RefreshDirectoryListing st =
     (case os_ReadDir (files st) (FolderLocation (passwordFolder st)) of
        Inl err \<Rightarrow>
          (Some (Wrap (''failed to read directory '' @ FolderLocation (passwordFolder st) @ '': '') err),
           st)
      | Inr dirs \<Rightarrow> (None, st\<lparr>passwordFolder := (passwordFolder st)\<lparr>Dirs := dirs\<rparr>\<rparr>))"

text \<open>
  \<open>FileExists\<close> is false only when the error of \<open>os.Stat\<close> is that the path does not
  exist; on any other error, as on success, it is true.
\<close>

definition FileExists :: "filesystem \<Rightarrow> string \<Rightarrow> bool" where
  "FileExists fs fileName =
     (case os_Stat fs fileName of
        Inl err \<Rightarrow> err \<noteq> ErrNotExist
      | Inr n \<Rightarrow> True)"

definition DeleteFile :: "string \<Rightarrow> state \<Rightarrow> error option \<times> state" where
  "DeleteFile fileName st =
     (let filePath = store_path (passwordFolder st) fileName
      in if \<not> FileExists (files st) filePath then
           (Some (Errorf (''password file '' @ [CHR 0x27] @ fileName @ ''.gpg'' @ [CHR 0x27] @
                          '' does not exist'')), st)
         else
           case os_Remove (files st) filePath of
             (Some err, fs') \<Rightarrow>
               (Some (Wrap (''failed to delete password file '' @ [CHR 0x27] @ fileName @ ''.gpg'' @
                            [CHR 0x27] @ '': '') err),
                st\<lparr>files := fs'\<rparr>)
           | (None, fs') \<Rightarrow> (None, st\<lparr>files := fs'\<rparr>))"

section \<open>Package encryption\<close>

text \<open>
  \<open>Data\<close> is the record that is sealed. Its fields \<open>Password\<close>, \<open>Username\<close>, \<open>Email\<close>
  and \<open>CreatedAt\<close> share their names with fields of other structs, as in the source; they
  are written with the name of their record where both are in sight.
\<close>

record Data =
  Password :: string
  Username :: string
  Email :: string
  URL :: string
  CreatedAt :: Time
  UpdatedAt :: Time

definition zero_Time :: Time where
  "zero_Time = \<lparr>year = 1, month = 1, day = 1, hour = 0, minute = 0, second = 0, nanosecond = 0\<rparr>"

text \<open>The zero value \<open>Data{}\<close>.\<close>

definition zero_Data :: Data where
  "zero_Data = \<lparr>Password = [], Username = [], Email = [], URL = [],
                 CreatedAt = zero_Time, UpdatedAt = zero_Time\<rparr>"

text \<open>
  The two libraries the package calls are parameters of the model.
  \<^item> \<open>json_Marshal\<close> and \<open>json_Unmarshal\<close> are \<open>encoding/json\<close> at type \<open>Data\<close>;
    \<open>json_Unmarshal bytes d\<close> returns the error, if any, and what \<open>d\<close> has become.
  \<^item> \<open>pgp_Encrypt password plaintext\<close> is the chain \<open>Encryption().Password(password).New()\<close>,
    \<open>Encrypt\<close>, \<open>ArmorBytes\<close> of gopenpgp, whose three errors the source returns alike;
    \<open>pgp_Decrypt password armored\<close> is \<open>Decryption().Password(password).New()\<close> followed by
    \<open>Decrypt(armored, crypto.Armor)\<close>. The session key and salt that the real cipher draws
    are not modelled: encryption is a function of the password and the plaintext.
\<close>

record library =
  json_Marshal :: "Data \<Rightarrow> error + string"
  json_Unmarshal :: "string \<Rightarrow> Data \<Rightarrow> error option \<times> Data"
  pgp_Encrypt :: "string \<Rightarrow> string \<Rightarrow> error + string"
  pgp_Decrypt :: "string \<Rightarrow> string \<Rightarrow> error + string"

definition EncryptPasswordAndWriteToFile ::
  "library \<Rightarrow> string \<Rightarrow> Data \<Rightarrow> state \<Rightarrow> error option \<times> state" where
  "EncryptPasswordAndWriteToFile lib fileName data st =
     (case json_Marshal lib data of
        Inl err \<Rightarrow> (Some err, st)
      | Inr jsonData \<Rightarrow>
          (let password = PasswordFolder.Password (passwordFolder st)
           in case pgp_Encrypt lib password jsonData of
                Inl err \<Rightarrow> (Some err, st)
              | Inr armored \<Rightarrow> WriteToFile fileName armored st))"

text \<open>
  \<open>DecryptPasswordFromFile\<close> returns \<open>(data, err)\<close>; on an error the callers drop
  \<open>data\<close>, and the model returns the error alone. The result of \<open>json.Unmarshal\<close> is not
  looked at: the source calls it as a statement.
\<close>

definition DecryptPasswordFromFile :: "library \<Rightarrow> string \<Rightarrow> state \<Rightarrow> error + Data" where
  "DecryptPasswordFromFile lib fileName st =
     (let data = zero_Data
      in case ReadFromFile fileName st of
           Inl err \<Rightarrow> Inl err
         | Inr fileData \<Rightarrow>
             (let password = PasswordFolder.Password (passwordFolder st)
              in case pgp_Decrypt lib password fileData of
                   Inl err \<Rightarrow> Inl err
                 | Inr decrypted \<Rightarrow> Inr (snd (json_Unmarshal lib decrypted data))))"

text \<open>
  What \<open>DecryptPasswordFromFile\<close> reads of the state: the files, the root of the store and
  the password of the session (lemma \<open>Decrypt_open_record\<close>).
\<close>

definition open_record :: "library \<Rightarrow> filesystem \<Rightarrow> string \<Rightarrow> string \<Rightarrow> string \<Rightarrow> error + Data" where
  "open_record lib fs root password fileName =
     (case os_ReadFile fs (root @ ''/'' @ fileName @ ''.gpg'') of
        Inl err \<Rightarrow> Inl err
      | Inr fileData \<Rightarrow>
          (case pgp_Decrypt lib password fileData of
             Inl err \<Rightarrow> Inl err
           | Inr decrypted \<Rightarrow> Inr (snd (json_Unmarshal lib decrypted zero_Data))))"

section \<open>Package menus\<close>

subsection \<open>The terminal programs\<close>

text \<open>
  A run of a text input program (\<open>p.Run()\<close>) ends in one of three ways: the program fails;
  the user presses Esc or Ctrl-C, and the model of the input sets \<open>Options.Quit\<close>; the user
  presses Enter, and the model stores the value of the field in its output variable. The
  user is a script: the list of the endings of the runs to come. Where the script is
  used up, the program is left waiting for its user (\<open>Waiting\<close>).
\<close>

datatype run_result = RunError error | Escape | Enter string

datatype 'a outcome = Returned 'a | Waiting

definition validatePassword :: "string \<Rightarrow> bool \<times> string" where
  "validatePassword password =
     (if length password < 8 then (False, ''Master password must be at least 8 characters long'')
      else (True, []))"

definition validatePhrase :: "string \<Rightarrow> bool \<times> string" where
  "validatePhrase phrase =
     (if length phrase < 12 then (False, ''Phrase must be at least 12 characters long'')
      else (True, []))"

subsection \<open>Login\<close>

text \<open>
  The two loops of the first-time setup. Each returns how it ended: \<open>Inl\<close> with what
  \<open>Login\<close> returns (or that it waits), or \<open>Inr\<close> when it breaks out to go on; the phrase
  loop then gives the phrase. The script that is left and the state come with it.
\<close>

fun master_loop ::
  "run_result list \<Rightarrow> state \<Rightarrow> ((bool \<times> error option) outcome + unit) \<times> run_result list \<times> state"
  where
  "master_loop [] st = (Inl Waiting, [], st)"
| "master_loop (RunError err # script) st = (Inl (Returned (False, Some err)), script, st)"
| "master_loop (r # script) st =
     (let st1 = (case r of Enter v \<Rightarrow> set_Password v st | _ \<Rightarrow> set_Quit True st)
      in if Quit (options st1) then (Inl (Returned (False, None)), script, st1)
         else
           case validatePassword (PasswordFolder.Password (passwordFolder st1)) of
             (True, errorMsg) \<Rightarrow> (Inr (), script, st1)
           | (False, errorMsg) \<Rightarrow>
               master_loop script (set_Password [] (set_ErrorMessage errorMsg st1)))"

fun phrase_loop ::
  "run_result list \<Rightarrow> state \<Rightarrow> ((bool \<times> error option) outcome + string) \<times> run_result list \<times> state"
  where
  "phrase_loop [] st = (Inl Waiting, [], set_ErrorMessage [] st)"
| "phrase_loop (RunError err # script) st =
     (Inl (Returned (False, Some err)), script, set_ErrorMessage [] st)"
| "phrase_loop (r # script) st =
     (let st0 = set_ErrorMessage [] st;
          phrase = (case r of Enter v \<Rightarrow> v | _ \<Rightarrow> []);
          st1 = (case r of Enter v \<Rightarrow> st0 | _ \<Rightarrow> set_Quit True st0)
      in if Quit (options st1) then (Inl (Returned (False, None)), script, st1)
         else
           case validatePhrase phrase of
             (True, errorMsg) \<Rightarrow> (Inr phrase, script, st1)
           | (False, errorMsg) \<Rightarrow> phrase_loop script (set_ErrorMessage errorMsg st1))"

text \<open>The first-time setup: the body of \<open>if !menu.passwordFolder.InitCheck\<close>.\<close>

definition first_time_setup ::
  "library \<Rightarrow> run_result list \<Rightarrow> state \<Rightarrow>
     ((bool \<times> error option) outcome + unit) \<times> run_result list \<times> state" where
  "first_time_setup lib script st =
     (case master_loop script st of
        (Inl out, script1, st1) \<Rightarrow> (Inl out, script1, st1)
      | (Inr u, script1, st1) \<Rightarrow>
          (case phrase_loop script1 st1 of
             (Inl out, script2, st2) \<Rightarrow> (Inl out, script2, st2)
           | (Inr phrase, script2, st2) \<Rightarrow>
               (let st3 = set_InitCheck False st2;
                    (created, st4) = time_Now st3;
                    (updated, st5) = time_Now st4;
                    data = \<lparr>Password = phrase, Username = [], Email = [], URL = [],
                            CreatedAt = created, UpdatedAt = updated\<rparr>
                in case EncryptPasswordAndWriteToFile lib ''.checker/init'' data st5 of
                     (Some err, st6) \<Rightarrow> (Inl (Returned (False, Some err)), script2, st6)
                   | (None, st6) \<Rightarrow>
                       (Inr (), script2, set_Password [] (set_InitCheck True st6)))))"

text \<open>
  The prompt of every login, from \<open>"Hello Again! Please enter your Password"\<close> on. The flag
  \<open>Options.Quit\<close> is not looked at after this run.
\<close>

definition login_prompt ::
  "library \<Rightarrow> run_result list \<Rightarrow> state \<Rightarrow> (bool \<times> error option) outcome \<times> run_result list \<times> state"
  where
  "login_prompt lib script st =
     (case script of
        [] \<Rightarrow> (Waiting, [], st)
      | RunError err # script1 \<Rightarrow> (Returned (False, Some err), script1, st)
      | r # script1 \<Rightarrow>
          (let st1 = (case r of Enter v \<Rightarrow> set_Password v st | _ \<Rightarrow> set_Quit True st)
           in case DecryptPasswordFromFile lib ''.checker/init'' st1 of
                Inl err \<Rightarrow> (Returned (False, None), script1, st1)
              | Inr data \<Rightarrow> (Returned (True, None), script1, set_Password (Data.Password data) st1)))"

definition Login ::
  "library \<Rightarrow> run_result list \<Rightarrow> state \<Rightarrow> (bool \<times> error option) outcome \<times> run_result list \<times> state"
  where
  "Login lib script st =
     (let st0 = set_ErrorMessage [] st
      in if \<not> InitCheck (passwordFolder st0) then
           (case first_time_setup lib script st0 of
              (Inl out, script1, st1) \<Rightarrow> (out, script1, st1)
            | (Inr u, script1, st1) \<Rightarrow> login_prompt lib script1 st1)
         else login_prompt lib script st0)"

subsection \<open>What the menus print\<close>

text \<open>
  \<open>Error_text\<close> is \<open>err.Error()\<close>, for the \<open>%v\<close> of a format; the text of an error of a
  library or of the operating system stands for whatever that one says.
\<close>

fun Error_text :: "error \<Rightarrow> string" where
  "Error_text (Errorf msg) = msg"
| "Error_text (Wrap msg err) = msg @ Error_text err"
| "Error_text ErrNotExist = ''no such file or directory''"
| "Error_text ErrIsDir = ''is a directory''"
| "Error_text ErrNotDir = ''not a directory''"
| "Error_text ErrPermission = ''permission denied''"
| "Error_text ErrNotEmpty = ''directory not empty''"
| "Error_text ErrInvalid = ''invalid argument''"
| "Error_text ErrReader = ''entropy source failed''"
| "Error_text ErrCipher = ''gopenpgp: error in reading message''"
| "Error_text ErrSyntax = ''invalid character''"
| "Error_text ErrMarshal = ''json: error calling MarshalJSON''"
| "Error_text ErrProgram = ''program was killed''"

definition newline :: string where
  "newline = [CHR 0x0A]"

text \<open>The escape sequence \<open>"\033[2J\033[H"\<close> that clears the screen.\<close>

definition clear_screen :: string where
  "clear_screen = [CHR 0x1B] @ ''[2J'' @ [CHR 0x1B] @ ''[H''"

text \<open>The cross mark and the check mark that open the messages, in UTF-8.\<close>

definition cross_mark :: string where
  "cross_mark = [CHR 0xE2, CHR 0x9D, CHR 0x8C]"

definition check_mark :: string where
  "check_mark = [CHR 0xE2, CHR 0x9C, CHR 0x85]"

definition press_enter :: string where
  "press_enter = ''Press Enter to continue...'' @ newline"

definition print_all :: "string list \<Rightarrow> state \<Rightarrow> state" where
  "print_all ls st = fold print ls st"

subsection \<open>getAllPasswordEntries\<close>

record PasswordEntry =
  Filename :: string
  SiteName :: string
  Username :: string
  Email :: string
  CreatedAt :: Time

text \<open>The loop over \<open>m.passwordFolder.Dirs\<close>; each \<open>continue\<close> is a recursive call.\<close>

fun entries_loop ::
  "library \<Rightarrow> state \<Rightarrow> DirEntry list \<Rightarrow> PasswordEntry list \<Rightarrow> PasswordEntry list" where
  "entries_loop lib st [] entries = entries"
| "entries_loop lib st (dirEntry # rest) entries =
     (if IsDir dirEntry \<or> \<not> HasSuffix (Name dirEntry) ''.gpg'' then entries_loop lib st rest entries
      else if Name dirEntry = ''init.gpg'' then entries_loop lib st rest entries
      else if Contains (Name dirEntry) ''.checker'' then entries_loop lib st rest entries
      else
        let filename = TrimSuffix (Name dirEntry) ''.gpg''
        in case DecryptPasswordFromFile lib filename st of
             Inl err \<Rightarrow> entries_loop lib st rest entries
           | Inr passwordData \<Rightarrow>
               (let siteName = ParseFilenameToSiteName filename;
                    entry = \<lparr>Filename = filename, SiteName = siteName,
                             Username = Data.Username passwordData,
                             Email = Data.Email passwordData,
                             CreatedAt = Data.CreatedAt passwordData\<rparr>
                in entries_loop lib st rest (entries @ [entry])))"

text \<open>
  The test that the loop applies to the name of a regular file before it appends the
  entry: the three \<open>continue\<close> on the name, and the one on a failed decryption.
\<close>

definition listed :: "library \<Rightarrow> state \<Rightarrow> string \<Rightarrow> bool" where
  "listed lib st name =
     (HasSuffix name ''.gpg'' \<and> name \<noteq> ''init.gpg'' \<and> \<not> Contains name ''.checker'' \<and>
      \<not> isl (DecryptPasswordFromFile lib (TrimSuffix name ''.gpg'') st))"

definition getAllPasswordEntries ::
  "library \<Rightarrow> state \<Rightarrow> (error + PasswordEntry list) \<times> state" where
  "getAllPasswordEntries lib st =
     (case RefreshDirectoryListing st of
        (Some err, st1) \<Rightarrow> (Inl (Wrap ''failed to refresh directory listing: '' err), st1)
      | (None, st1) \<Rightarrow> (Inr (entries_loop lib st1 (Dirs (passwordFolder st1)) []), st1))"

subsection \<open>ChangeMasterPassword\<close>

text \<open>
  What the run of the change form leaves in its final model: the two flags, and the three
  values the form stored when it was submitted.
\<close>

record ChangeModel =
  submitted :: bool
  cancelled :: bool
  currentPass :: string
  newPass :: string
  confirmPass :: string

definition ChangeMasterPassword ::
  "library \<Rightarrow> error + ChangeModel \<Rightarrow> state \<Rightarrow> (bool \<times> error option) \<times> state" where
  "ChangeMasterPassword lib run st =
     (let st0 = set_ErrorMessage [] st
      in case run of
           Inl err \<Rightarrow> ((False, Some (Wrap ''error running change password form: '' err)), st0)
         | Inr formModel \<Rightarrow>
             if cancelled formModel then ((False, None), st0)
             else if \<not> submitted formModel then ((False, None), st0)
             else
               (let oldPassword = PasswordFolder.Password (passwordFolder st0);
                    st1 = set_Password (currentPass formModel) st0
                in case DecryptPasswordFromFile lib ''.checker/init'' st1 of
                     Inl err \<Rightarrow>
                       ((False, None),
                        print_all
                          [clear_screen,
                           cross_mark @ '' Error: Current password is incorrect'' @ newline @ newline,
                           press_enter]
                          (set_Password oldPassword st1))
                   | Inr decrypted \<Rightarrow>
                       (let st2 = set_Password (newPass formModel) st1;
                            (now, st3) = time_Now st2;
                            validationData = decrypted\<lparr>UpdatedAt := now\<rparr>
                        in case EncryptPasswordAndWriteToFile lib ''.checker/init'' validationData st3 of
                             (Some err, st4) \<Rightarrow>
                               ((False, None),
                                print_all
                                  [clear_screen,
                                   cross_mark @ '' Error saving new master password: '' @
                                     Error_text err @ newline @ newline,
                                   press_enter]
                                  (set_Password oldPassword st4))
                           | (None, st4) \<Rightarrow>
                               (case DecryptPasswordFromFile lib ''.checker/init'' st4 of
                                  Inl err \<Rightarrow>
                                    ((False,
                                      Some (Wrap ''critical error: new password verification failed: '' err)),
                                     print_all
                                       [clear_screen,
                                        cross_mark @
                                          '' Critical Error: Cannot decrypt with new password. Please check your password store manually.'' @
                                          newline @ newline,
                                        press_enter]
                                       st4)
                                | Inr testData \<Rightarrow>
                                    if Data.Password testData \<noteq> Data.Password validationData then
                                      ((False, Some (Errorf ''validation data integrity check failed'')),
                                       print_all
                                         [clear_screen,
                                          cross_mark @
                                            '' Critical Error: Validation data corrupted during password change.'' @
                                            newline @ newline,
                                          press_enter]
                                         st4)
                                    else
                                      ((True, None),
                                       print_all
                                         [clear_screen,
                                          check_mark @ '' Master password changed successfully!'' @
                                            newline @ newline,
                                          ''Your new master password is now active.'' @ newline,
                                          ''You will need to use the new password for future logins.'' @
                                            newline @ newline,
                                          press_enter]
                                         st4)))))"

section \<open>What the program relies on from outside\<close>

text \<open>
  The contracts of the two libraries, as the claims about sealing and opening take them.
  \<^item> The cipher: what was sealed under a password that is not empty opens under that
    password to the same plaintext (\<open>cipher_roundtrip\<close>), and under no other password
    (\<open>cipher_authentic\<close>).
  \<^item> The serialisation: a record is marshalled to bytes that unmarshal to it
    (\<open>json_roundtrip\<close>).
  \<^item> The entropy source delivers at every read (\<open>reliable\<close>).
\<close>

definition cipher_roundtrip :: "library \<Rightarrow> bool" where
  "cipher_roundtrip lib =
     (\<forall>password plaintext. password \<noteq> [] \<longrightarrow>
        (\<exists>armored. pgp_Encrypt lib password plaintext = Inr armored \<and>
                   pgp_Decrypt lib password armored = Inr plaintext))"

definition cipher_authentic :: "library \<Rightarrow> bool" where
  "cipher_authentic lib =
     (\<forall>password other plaintext armored.
        pgp_Encrypt lib password plaintext = Inr armored \<longrightarrow> other \<noteq> password \<longrightarrow>
        isl (pgp_Decrypt lib other armored))"

definition json_roundtrip :: "library \<Rightarrow> bool" where
  "json_roundtrip lib =
     (\<forall>data. \<exists>bytes. json_Marshal lib data = Inr bytes \<and>
                      json_Unmarshal lib bytes zero_Data = (None, data))"

definition reliable :: "entropy \<Rightarrow> bool" where
  "reliable src = (\<forall>i. src i \<noteq> None)"

subsection \<open>A reference instance of the libraries\<close>

text \<open>
  An instance that meets the contracts, on which the operations can be run: it shows that
  the contracts can be met and gives the concrete stores of the examples. Fields are
  written as netstrings (\<open>5:hello\<close>), a number as the netstring of its decimal digits. The
  cipher is symbolic: the sealed bytes carry the password they open under, followed by
  the plaintext.
\<close>

definition is_digit :: "char \<Rightarrow> bool" where
  "is_digit c = byte_in c 0x30 0x39"

definition parse_decimal :: "string \<Rightarrow> nat" where
  "parse_decimal ds = foldl (\<lambda>acc c. 10 * acc + (of_char c - 48)) 0 ds"

definition ref_put :: "string \<Rightarrow> string" where
  "ref_put s = decimal (length s) @ '':'' @ s"

definition ref_get :: "string \<Rightarrow> (string \<times> string) option" where
  "ref_get bytes =
     (let ds = takeWhile is_digit bytes; n = parse_decimal ds
      in case dropWhile is_digit bytes of
           [] \<Rightarrow> None
         | c # body \<Rightarrow>
             if ds \<noteq> [] \<and> c = CHR '':'' \<and> n \<le> length body
             then Some (take n body, drop n body) else None)"

fun ref_get_many :: "nat \<Rightarrow> string \<Rightarrow> (string list \<times> string) option" where
  "ref_get_many 0 bytes = Some ([], bytes)"
| "ref_get_many (Suc k) bytes =
     (case ref_get bytes of
        None \<Rightarrow> None
      | Some (x, rest) \<Rightarrow>
          (case ref_get_many k rest of
             None \<Rightarrow> None
           | Some (xs, rest') \<Rightarrow> Some (x # xs, rest')))"

definition time_fields :: "Time \<Rightarrow> string list" where
  "time_fields t =
     map decimal [year t, month t, day t, hour t, minute t, second t, nanosecond t]"

definition time_of_fields :: "string list \<Rightarrow> Time option" where
  "time_of_fields fs =
     (case fs of
        [y, mo, d, h, mi, s, n] \<Rightarrow>
          if list_all (\<lambda>f. f \<noteq> [] \<and> list_all is_digit f) fs
          then Some \<lparr>year = parse_decimal y, month = parse_decimal mo, day = parse_decimal d,
                     hour = parse_decimal h, minute = parse_decimal mi,
                     second = parse_decimal s, nanosecond = parse_decimal n\<rparr>
          else None
      | _ \<Rightarrow> None)"

definition data_fields :: "Data \<Rightarrow> string list" where
  "data_fields d =
     [Data.Password d, Data.Username d, Data.Email d, URL d] @
     time_fields (Data.CreatedAt d) @ time_fields (UpdatedAt d)"

definition data_of_fields :: "string list \<Rightarrow> Data option" where
  "data_of_fields fs =
     (case fs of
        p # u # e # l # ts \<Rightarrow>
          (case (time_of_fields (take 7 ts), time_of_fields (drop 7 ts)) of
             (Some created, Some updated) \<Rightarrow>
               Some \<lparr>Password = p, Username = u, Email = e, URL = l,
                      CreatedAt = created, UpdatedAt = updated\<rparr>
           | _ \<Rightarrow> None)
      | _ \<Rightarrow> None)"

definition ref_Marshal :: "Data \<Rightarrow> error + string" where
  "ref_Marshal d = Inr (concat (map ref_put (data_fields d)))"

definition ref_Unmarshal :: "string \<Rightarrow> Data \<Rightarrow> error option \<times> Data" where
  "ref_Unmarshal bytes d =
     (case ref_get_many 18 bytes of
        Some (fs, []) \<Rightarrow>
          (case data_of_fields fs of
             Some d' \<Rightarrow> (None, d')
           | None \<Rightarrow> (Some ErrSyntax, d))
      | _ \<Rightarrow> (Some ErrSyntax, d))"

definition ref_Encrypt :: "string \<Rightarrow> string \<Rightarrow> error + string" where
  "ref_Encrypt password plaintext = Inr (ref_put password @ plaintext)"

definition ref_Decrypt :: "string \<Rightarrow> string \<Rightarrow> error + string" where
  "ref_Decrypt password armored =
     (case ref_get armored of
        None \<Rightarrow> Inl ErrCipher
      | Some (sealed_under, plaintext) \<Rightarrow>
          if sealed_under = password then Inr plaintext else Inl ErrCipher)"

definition ref_lib :: library where
  "ref_lib = \<lparr>json_Marshal = ref_Marshal, json_Unmarshal = ref_Unmarshal,
               pgp_Encrypt = ref_Encrypt, pgp_Decrypt = ref_Decrypt\<rparr>"

subsection \<open>Example stores\<close>

text \<open>
  A store as the program finds it after its first start: the home directory of the user
  (mode \<open>0755\<close>), in it the root of the store and \<open>.checker\<close> with mode \<open>0750\<close>; nothing is
  sealed yet. The umask of the process is \<open>022\<close>.
\<close>

definition store_root :: string where
  "store_root = ''/home/user/.password-manager-store''"

definition fresh_store :: state where
  "fresh_store =
     \<lparr>passwordFolder = \<lparr>FolderLocation = store_root, Dirs = [], InitCheck = False, Password = []\<rparr>,
      options = \<lparr>Quit = False, LoggedIn = False, ErrorMessage = []\<rparr>,
      files = [(''/home'', Directory 0x1ED), (''/home/user'', Directory 0x1ED),
               (store_root, Directory 0x1E8), (store_root @ ''/.checker'', Directory 0x1E8)],
      umask = 0x12,
      stdout = [],
      clock = (\<lambda>n. \<lparr>year = 2024, month = 8, day = 30, hour = 14, minute = 30, second = n mod 60,
                      nanosecond = 0\<rparr>),
      ticks = 0\<rparr>"

text \<open>
  The same store after the setup with the master password \<open>correcthorse\<close> and the phrase
  \<open>the quick brown fox jumps\<close>, sealed by the reference instance.
\<close>

definition example_validation :: Data where
  "example_validation =
     \<lparr>Password = ''the quick brown fox jumps'', Username = [], Email = [], URL = [],
      CreatedAt = \<lparr>year = 2024, month = 8, day = 30, hour = 14, minute = 30, second = 0,
                   nanosecond = 0\<rparr>,
      UpdatedAt = \<lparr>year = 2024, month = 8, day = 30, hour = 14, minute = 30, second = 1,
                   nanosecond = 0\<rparr>\<rparr>"

definition ref_seal :: "string \<Rightarrow> Data \<Rightarrow> string" where
  "ref_seal password data = ref_put password @ concat (map ref_put (data_fields data))"

definition bootstrapped_store :: state where
  "bootstrapped_store =
     fresh_store
       \<lparr>passwordFolder := \<lparr>FolderLocation = store_root, Dirs = [], InitCheck = True, Password = []\<rparr>,
        files := files fresh_store @
          [(store_root @ ''/.checker/init.gpg'', File 0x1A4 (ref_seal ''correcthorse'' example_validation))],
        ticks := 2\<rparr>"

text \<open>
  The bootstrapped store with its validation file read-only (mode \<open>0400\<close>), as a setup
  under a umask that takes the write bits away leaves it.
\<close>

definition readonly_store :: state where
  "readonly_store =
     bootstrapped_store
       \<lparr>files := files fresh_store @
          [(store_root @ ''/.checker/init.gpg'', File 0x100 (ref_seal ''correcthorse'' example_validation))]\<rparr>"

text \<open>
  The store of a session under the password \<open>correcthorse\<close> that holds, next to the
  validation record, a file \<open>notes.gpg\<close> sealed under the same password whose plaintext
  is not a serialised record.
\<close>

definition store_with_foreign_file :: state where
  "store_with_foreign_file =
     bootstrapped_store
       \<lparr>passwordFolder :=
          \<lparr>FolderLocation = store_root, Dirs = [], InitCheck = True, Password = ''correcthorse''\<rparr>,
        files := files bootstrapped_store @
          [(store_root @ ''/notes.gpg'', File 0x1A4 (ref_put ''correcthorse'' @ ''not a record''))]\<rparr>"

text \<open>
  The store of a session under the password \<open>correcthorse\<close> with two records sealed under
  it and one file sealed under another password.
\<close>

definition example_record :: "string \<Rightarrow> Data" where
  "example_record secret =
     \<lparr>Password = secret, Username = ''octocat'', Email = ''octocat@example.org'', URL = [],
      CreatedAt = \<lparr>year = 2024, month = 8, day = 30, hour = 14, minute = 30, second = 45,
                   nanosecond = 0\<rparr>,
      UpdatedAt = \<lparr>year = 2024, month = 8, day = 30, hour = 14, minute = 30, second = 45,
                   nanosecond = 0\<rparr>\<rparr>"

definition catalog_store :: state where
  "catalog_store =
     bootstrapped_store
       \<lparr>passwordFolder :=
          \<lparr>FolderLocation = store_root, Dirs = [], InitCheck = True, Password = ''correcthorse''\<rparr>,
        files := files bootstrapped_store @
          [(store_root @ ''/github_20240830_143045.gpg'',
            File 0x1A4 (ref_seal ''correcthorse'' (example_record ''hunter2hunter2''))),
           (store_root @ ''/gmail_20240830_143022.gpg'',
            File 0x1A4 (ref_seal ''correcthorse'' (example_record ''swordfish123''))),
           (store_root @ ''/foreign_20240101_000000.gpg'',
            File 0x1A4 (ref_seal ''someoneelse'' (example_record ''unreadable'')))]\<rparr>"

section \<open>Properties of the filename codec\<close>

lemma Contains_single: "Contains s [c] \<longleftrightarrow> c \<in> set s"
  by (induction s) auto

lemma after_LastIndex:
  assumes "sep \<in> set s"
  shows "sep \<notin> set (drop (nat (LastIndex s sep + 1)) s)"
proof -
  let ?tw = "takeWhile (\<lambda>c. c \<noteq> sep) (rev s)"
  have le: "length ?tw \<le> length s"
    using length_takeWhile_le [of "\<lambda>c. c \<noteq> sep" "rev s"] by simp
  have idx: "nat (LastIndex s sep + 1) = length s - length ?tw"
    using assms le by (simp add: LastIndex_def)
  have "drop (length s - length ?tw) s = rev (take (length ?tw) (rev s))"
    by (simp add: rev_take)
  also have "take (length ?tw) (rev s) = ?tw"
    using takeWhile_eq_take [of "\<lambda>c. c \<noteq> sep" "rev s"] by simp
  finally have "set (drop (nat (LastIndex s sep + 1)) s) = set ?tw"
    using idx by simp
  moreover have "sep \<notin> set ?tw"
    using set_takeWhileD by fastforce
  ultimately show ?thesis by simp
qed

lemma LastIndex_none: "LastIndex s sep = -1 \<longleftrightarrow> sep \<notin> set s"
proof -
  have "length (takeWhile (\<lambda>c. c \<noteq> sep) (rev s)) < length s" if "sep \<in> set s"
  proof -
    let ?tw = "takeWhile (\<lambda>c. c \<noteq> sep) (rev s)"
    have "?tw \<noteq> rev s"
      using that by simp
    then have "length ?tw \<noteq> length (rev s)"
      using takeWhile_eq_take [of "\<lambda>c. c \<noteq> sep" "rev s"] by auto
    moreover have "length ?tw \<le> length (rev s)"
      by (rule length_takeWhile_le)
    ultimately show ?thesis by simp
  qed
  then show ?thesis by (auto simp: LastIndex_def)
qed

lemma Parse_never_strips:
  "ParseFilenameToSiteName f =
     ReplaceAll (if HasSuffix f ''.gpg'' then TrimSuffix f ''.gpg'' else f) (CHR ''_'') '' ''"
  using after_LastIndex [of "CHR ''_''"]
  by (auto simp: ParseFilenameToSiteName_def Let_def Contains_single LastIndex_none)

lemma of_char_digit_char: "(of_char (digit_char d) :: nat) = 48 + d mod 10"
proof -
  have "48 + d mod 10 < 256" by arith
  then show ?thesis by (simp add: digit_char_def)
qed

lemma digit_char_neq: "digit_char d \<noteq> CHR ''_''" "digit_char d \<noteq> CHR ''g''"
proof -
  have "(of_char (digit_char d) :: nat) < 58"
    by (simp add: of_char_digit_char)
  then show "digit_char d \<noteq> CHR ''_''" "digit_char d \<noteq> CHR ''g''"
    by auto
qed

lemma decimal_not_Nil: "decimal n \<noteq> []"
  by (subst decimal.simps) simp

lemma last_decimal: "last (decimal n) = digit_char n"
  by (subst decimal.simps) simp

lemma set_decimal: "c \<in> set (decimal n) \<Longrightarrow> \<exists>d. c = digit_char d"
proof (induction n rule: decimal.induct)
  case (1 n)
  show ?case
  proof (cases "n < 10")
    case True
    with "1.prems" show ?thesis by (subst (asm) decimal.simps) auto
  next
    case False
    with "1.prems" have "c \<in> set (decimal (n div 10)) \<or> c = digit_char n"
      by (subst (asm) decimal.simps) auto
    with False "1.IH" show ?thesis by auto
  qed
qed

lemma set_zero_pad: "c \<in> set (zero_pad w n) \<Longrightarrow> \<exists>d. c = digit_char d"
proof -
  assume "c \<in> set (zero_pad w n)"
  then have "c = CHR ''0'' \<or> c \<in> set (decimal n)"
    by (auto simp: zero_pad_def)
  moreover have "CHR ''0'' = digit_char 0"
    by code_simp
  ultimately show ?thesis using set_decimal by metis
qed

lemma underscore_notin_zero_pad: "CHR ''_'' \<notin> set (zero_pad w n)"
  using set_zero_pad digit_char_neq(1) by metis

lemma last_zero_pad: "zero_pad w n \<noteq> [] \<and> last (zero_pad w n) = digit_char n"
  by (simp add: zero_pad_def decimal_not_Nil last_decimal)

lemma ReplaceAll_Nil [simp]: "ReplaceAll [] old new = []"
  by (simp add: ReplaceAll_def)

lemma ReplaceAll_Cons [simp]:
  "ReplaceAll (c # cs) old new = (if c = old then new else [c]) @ ReplaceAll cs old new"
  by (simp add: ReplaceAll_def)

lemma ReplaceAll_append: "ReplaceAll (xs @ ys) old new = ReplaceAll xs old new @ ReplaceAll ys old new"
  by (simp add: ReplaceAll_def)

lemma ReplaceAll_absent: "old \<notin> set s \<Longrightarrow> ReplaceAll s old new = s"
  by (induction s) auto

lemma HasSuffix_last: "HasSuffix s suf \<Longrightarrow> suf \<noteq> [] \<Longrightarrow> last s = last suf"
proof -
  assume h: "HasSuffix s suf" and ne: "suf \<noteq> []"
  then have "s = take (length s - length suf) s @ suf"
    by (metis HasSuffix_def append_take_drop_id)
  then show ?thesis using ne by (metis last_appendR)
qed

lemma Format_clock_props:
  "Format_clock t \<noteq> []" "last (Format_clock t) = digit_char (second t)"
  "CHR ''_'' \<notin> set (Format_clock t)"
  using last_zero_pad [of 2 "second t"] underscore_notin_zero_pad
  by (auto simp: Format_clock_def)

lemma Format_date_props: "CHR ''_'' \<notin> set (Format_date t)"
  using underscore_notin_zero_pad by (auto simp: Format_date_def)

lemma GenerateFilename_no_gpg: "\<not> HasSuffix (GenerateFilename now siteName) ''.gpg''"
proof
  assume "HasSuffix (GenerateFilename now siteName) ''.gpg''"
  then have "last (GenerateFilename now siteName) = CHR ''g''"
    using HasSuffix_last by fastforce
  moreover have "last (GenerateFilename now siteName) = digit_char (second now)"
    using Format_clock_props(1,2) [of now]
    by (simp add: GenerateFilename_def Format_stamp_def)
  ultimately show False using digit_char_neq(2) by metis
qed


lemma ReplaceAllString_word_chars: "c \<in> set (ReplaceAllString s) \<Longrightarrow> word_char c"
  by (induction s rule: ReplaceAllString.induct) (auto simp: word_char_def split: if_splits)

text \<open>
  Claim C6. For every label and every instant, decoding the encoded filename should give
  the sanitized label with each underscore turned into a space, the timestamp dropped.
  The code does not do that. \<open>ParseFilenameToSiteName\<close> cuts at the last underscore, which
  in a generated filename is the one inside the timestamp \<open>YYYYMMDD_HHMMSS\<close>; what follows
  it has six characters and no underscore, so the test for a timestamp never holds
  (lemma \<open>Parse_never_strips\<close>). For every label and instant the decoded name is the
  sanitized label followed by the date and the time of day, and so differs from the
  sanitized label.
\<close>

theorem C6_timestamp_kept:
  "ParseFilenameToSiteName (GenerateFilename now siteName) =
     ReplaceAll (cleanName siteName) (CHR ''_'') '' '' @ '' '' @ Format_date now @ '' '' @
     Format_clock now
   \<and> ParseFilenameToSiteName (GenerateFilename now siteName) \<noteq>
     ReplaceAll (cleanName siteName) (CHR ''_'') '' ''"
proof -
  have "ParseFilenameToSiteName (GenerateFilename now siteName) =
          ReplaceAll (GenerateFilename now siteName) (CHR ''_'') '' ''"
    using GenerateFilename_no_gpg by (simp add: Parse_never_strips)
  also have "\<dots> = ReplaceAll (cleanName siteName) (CHR ''_'') '' '' @ '' '' @
      Format_date now @ '' '' @ Format_clock now"
    using Format_clock_props(3) [of now] Format_date_props [of now]
    by (simp add: GenerateFilename_def Format_stamp_def ReplaceAll_append ReplaceAll_absent)
  finally show ?thesis by simp
qed


text \<open>The label \<open>GitHub\<close> at 14:30:45 on 30 August 2024.\<close>

theorem C6_timestamp_kept_example:
  "ParseFilenameToSiteName
     (GenerateFilename \<lparr>year = 2024, month = 8, day = 30, hour = 14, minute = 30, second = 45,
                         nanosecond = 0\<rparr> ''GitHub'') = ''github 20240830 143045''"
proof -
  let ?t = "\<lparr>year = 2024, month = 8, day = 30, hour = 14, minute = 30, second = 45,
             nanosecond = 0\<rparr>"
  have "ReplaceAll (cleanName ''GitHub'') (CHR ''_'') '' '' @ '' '' @ Format_date ?t @ '' '' @
          Format_clock ?t = ''github 20240830 143045''"
    by code_simp
  with C6_timestamp_kept [of ?t "''GitHub''"] show ?thesis by simp
qed

section \<open>Properties of the password generator\<close>

lemma rand_Int_reliable:
  assumes "reliable src" "0 < n"
  shows "\<exists>j src'. rand_Int src n = (Inr j, src') \<and> j < n \<and> reliable src'"
proof -
  from assms(1) obtain r where r: "src 0 = Some r"
    by (auto simp: reliable_def)
  have "reliable (\<lambda>i. src (Suc i))"
    using assms(1) by (simp add: reliable_def)
  with r assms(2) show ?thesis
    by (simp add: rand_Int_def)
qed

lemma getRandomChar_reliable:
  assumes "reliable src" "chars \<noteq> []"
  shows "\<exists>c src'. getRandomChar chars src = (Inr [c], src') \<and> c \<in> set chars \<and> reliable src'"
proof -
  from assms obtain j src' where
    j: "rand_Int src (length chars) = (Inr j, src')" "j < length chars" "reliable src'"
    using rand_Int_reliable [of src "length chars"] by auto
  then show ?thesis
    using assms(2) by (simp add: getRandomChar_def)
qed

lemma add_class_reliable:
  assumes "reliable src" "chars \<noteq> []"
  shows "\<exists>c src'. add_class chars (charset, g, src) = (charset @ chars, g @ [c], src') \<and>
           c \<in> set chars \<and> reliable src'"
proof -
  from getRandomChar_reliable [OF assms] obtain c src' where
    "getRandomChar chars src = (Inr [c], src')" "c \<in> set chars" "reliable src'"
    by blast
  then show ?thesis
    by (simp add: add_class_def)
qed

lemma optional_class:
  assumes "reliable src" "chars \<noteq> []" "set g \<subseteq> set charset"
  shows "\<exists>charset' g' src'.
           (if b then add_class chars (charset, g, src) else (charset, g, src)) = (charset', g', src') \<and>
           reliable src' \<and> set g' \<subseteq> set charset' \<and>
           set charset \<subseteq> set charset' \<and> set charset' \<subseteq> set charset \<union> set chars \<and>
           set g \<subseteq> set g' \<and> length g' \<le> Suc (length g) \<and>
           (b \<longrightarrow> charset' \<noteq> [] \<and> (\<exists>c\<in>set g'. c \<in> set chars))"
proof (cases b)
  case True
  from add_class_reliable [OF assms(1,2), of charset g] obtain c src' where
    "add_class chars (charset, g, src) = (charset @ chars, g @ [c], src')" "c \<in> set chars"
    "reliable src'"
    by blast
  with True assms(2,3) show ?thesis by auto
next
  case False
  with assms show ?thesis by auto
qed

lemma place_prefix:
  "k \<le> length g \<Longrightarrow> k \<le> length pw \<Longrightarrow>
     fold (\<lambda>i pw. if i < length pw then pw[i := g ! i] else pw) [0..<k] pw = take k g @ drop k pw"
proof (induction k)
  case 0
  then show ?case by simp
next
  case (Suc k)
  then have "(take k g @ drop k pw)[k := g ! k] = take (Suc k) g @ drop (Suc k) pw"
    by (simp add: list_update_append take_Suc_conv_app_nth upd_conv_take_nth_drop
          flip: Cons_nth_drop_Suc)
  with Suc show ?case by simp
qed

lemma place_guaranteed_spec:
  assumes "length g \<le> length pw"
  shows "length (place_guaranteed g pw) = length pw \<and> take (length g) (place_guaranteed g pw) = g"
  using assms place_prefix [of "length g" g pw] by (simp add: place_guaranteed_def)

lemma fill_loop_reliable:
  assumes "reliable src" "charset \<noteq> []" "i \<le> n" "length pw = n"
  shows "\<exists>pw' src'. fill_loop charset i n pw src = (Inr pw', src') \<and> length pw' = n \<and>
           take i pw' = take i pw \<and> set (drop i pw') \<subseteq> set charset \<and> reliable src'"
  using assms
proof (induction charset i n pw src rule: fill_loop.induct)
  case (1 charset i n password src)
  show ?case
  proof (cases "i < n")
    case False
    with "1.prems" show ?thesis
      by (subst fill_loop.simps) simp
  next
    case True
    from getRandomChar_reliable [OF "1.prems"(1,2)] obtain c src' where
      c: "getRandomChar charset src = (Inr [c], src')" "c \<in> set charset" "reliable src'"
      by blast
    let ?pw = "password[i := hd [c]]"
    from "1.IH" [OF True c(1) [symmetric] refl c(3) "1.prems"(2)] True "1.prems"(4)
    obtain pw' src'' where
      r: "fill_loop charset (Suc i) n ?pw src' = (Inr pw', src'')" "length pw' = n"
         "take (Suc i) pw' = take (Suc i) ?pw" "set (drop (Suc i) pw') \<subseteq> set charset"
         "reliable src''"
      by auto
    have eq: "fill_loop charset i n password src = (Inr pw', src'')"
      using True c(1) r(1) by (subst fill_loop.simps) simp
    have nth: "pw' ! i = c"
    proof -
      have "pw' ! i = take (Suc i) pw' ! i" by simp
      also have "\<dots> = take (Suc i) ?pw ! i" using r(3) by simp
      also have "\<dots> = c" using True "1.prems"(4) by simp
      finally show ?thesis .
    qed
    have tk: "take i pw' = take i password"
    proof -
      have "take i pw' = take i (take (Suc i) pw')" by simp
      also have "\<dots> = take i (take (Suc i) ?pw)" using r(3) by simp
      also have "\<dots> = take i password" by simp
      finally show ?thesis .
    qed
    have "drop i pw' = pw' ! i # drop (Suc i) pw'"
      using True r(2) by (simp add: Cons_nth_drop_Suc)
    with nth c(2) r(4) have "set (drop i pw') \<subseteq> set charset" by simp
    with eq r(2,5) tk show ?thesis by simp
  qed
qed

lemma shuffle_loop_reliable:
  assumes "reliable src" "k < length buf \<or> k = 0"
  shows "\<exists>buf' src'. shuffle_loop k buf src = ((None, buf'), src') \<and> mset buf' = mset buf \<and>
           reliable src'"
  using assms
proof (induction k arbitrary: buf src)
  case 0
  then show ?case by simp
next
  case (Suc k)
  from rand_Int_reliable [OF Suc.prems(1), of "Suc k + 1"] obtain j src' where
    j: "rand_Int src (Suc k + 1) = (Inr j, src')" "j < Suc k + 1" "reliable src'"
    by auto
  let ?buf = "buf[Suc k := buf ! j, j := buf ! Suc k]"
  have len: "Suc k < length buf" using Suc.prems(2) by simp
  then have "j < length buf" using j(2) by simp
  with len have ms: "mset ?buf = mset buf"
    by (simp add: mset_swap)
  from Suc.IH [OF j(3), of ?buf] len obtain buf' src'' where
    "shuffle_loop k ?buf src' = ((None, buf'), src'')" "mset buf' = mset ?buf" "reliable src''"
    by auto
  with j(1) ms show ?case by simp
qed

lemma shuffleBytes_reliable:
  assumes "reliable src"
  shows "\<exists>buf' src'. shuffleBytes buf src = ((None, buf'), src') \<and> mset buf' = mset buf \<and>
           reliable src'"
proof -
  have "length buf - 1 < length buf \<or> length buf - 1 = 0" by arith
  from shuffle_loop_reliable [OF assms this] show ?thesis
    by (simp add: shuffleBytes_def)
qed

lemma class_facts:
  "removeAmbiguousChars uppercaseChars = ''ABCDEFGHJKLMNPQRSTUVWXYZ''"
  "removeAmbiguousChars lowercaseChars = ''abcdefghijkmnopqrstuvwxyz''"
  "removeAmbiguousChars numberChars = ''23456789''"
  by (simp_all add: removeAmbiguousChars_def ambiguousChars_def uppercaseChars_def
        lowercaseChars_def numberChars_def)

lemma class_chars_upper:
  "class_chars e uppercaseChars \<noteq> []" "set (class_chars e uppercaseChars) \<subseteq> set uppercaseChars"
  "e \<Longrightarrow> set (class_chars e uppercaseChars) \<inter> set ambiguousChars = {}"
  by (auto simp: class_chars_def class_facts) (auto simp: uppercaseChars_def ambiguousChars_def)

lemma class_chars_lower:
  "class_chars e lowercaseChars \<noteq> []" "set (class_chars e lowercaseChars) \<subseteq> set lowercaseChars"
  "e \<Longrightarrow> set (class_chars e lowercaseChars) \<inter> set ambiguousChars = {}"
  by (auto simp: class_chars_def class_facts) (auto simp: lowercaseChars_def ambiguousChars_def)

lemma class_chars_number:
  "class_chars e numberChars \<noteq> []" "set (class_chars e numberChars) \<subseteq> set numberChars"
  "e \<Longrightarrow> set (class_chars e numberChars) \<inter> set ambiguousChars = {}"
  by (auto simp: class_chars_def class_facts) (auto simp: numberChars_def ambiguousChars_def)

lemma symbol_facts:
  "symbolChars \<noteq> []" "set symbolChars \<inter> set ambiguousChars = {}"
  by (auto simp: symbolChars_def ambiguousChars_def)


text \<open>
  Claim C5. For every options value with a length from 8 to 64 and at least one class
  selected, \<open>GeneratePassword\<close> returns without error a password of exactly that length
  which holds a character of each requested class and, when the ambiguous characters are
  excluded, none of \<open>0O1lI\<close>. The entropy source is taken to deliver at every read, as
  \<open>crypto/rand\<close> does; where it fails the function returns the error instead.
\<close>

theorem C5_GeneratePassword_covers:
  assumes rel: "reliable src"
    and len: "8 \<le> Length opts" "Length opts \<le> 64"
    and cls: "IncludeUppercase opts \<or> IncludeLowercase opts \<or> IncludeNumbers opts \<or>
              IncludeSymbols opts"
  shows "\<exists>password src'.
           GeneratePassword opts src = (Inr password, src') \<and>
           int (length password) = Length opts \<and>
           (IncludeUppercase opts \<longrightarrow> (\<exists>c\<in>set password. c \<in> set uppercaseChars)) \<and>
           (IncludeLowercase opts \<longrightarrow> (\<exists>c\<in>set password. c \<in> set lowercaseChars)) \<and>
           (IncludeNumbers opts \<longrightarrow> (\<exists>c\<in>set password. c \<in> set numberChars)) \<and>
           (IncludeSymbols opts \<longrightarrow> (\<exists>c\<in>set password. c \<in> set symbolChars)) \<and>
           (ExcludeAmbiguous opts \<longrightarrow> set password \<inter> set ambiguousChars = {})"
proof -
  let ?e = "ExcludeAmbiguous opts"
  let ?U = "class_chars ?e uppercaseChars"
  let ?L = "class_chars ?e lowercaseChars"
  let ?N = "class_chars ?e numberChars"
  let ?n = "nat (Length opts)"
  define acc1 where "acc1 = (if IncludeUppercase opts then add_class ?U ([], [], src) else ([], [], src))"
  obtain cs1 g1 src1 where a1: "acc1 = (cs1, g1, src1)" "reliable src1" "set g1 \<subseteq> set cs1"
    "set cs1 \<subseteq> set ?U" "length g1 \<le> 1"
    "IncludeUppercase opts \<longrightarrow> cs1 \<noteq> [] \<and> (\<exists>c\<in>set g1. c \<in> set ?U)"
    using optional_class [OF rel class_chars_upper(1), of "[]" "[]" "IncludeUppercase opts" ?e]
    unfolding acc1_def by auto
  define acc2 where "acc2 = (if IncludeLowercase opts then add_class ?L acc1 else acc1)"
  obtain cs2 g2 src2 where a2: "acc2 = (cs2, g2, src2)" "reliable src2" "set g2 \<subseteq> set cs2"
    "set cs1 \<subseteq> set cs2" "set cs2 \<subseteq> set cs1 \<union> set ?L" "set g1 \<subseteq> set g2" "length g2 \<le> Suc (length g1)"
    "IncludeLowercase opts \<longrightarrow> cs2 \<noteq> [] \<and> (\<exists>c\<in>set g2. c \<in> set ?L)"
    using optional_class [OF a1(2) class_chars_lower(1) a1(3), of "IncludeLowercase opts" ?e]
    unfolding acc2_def a1(1) by blast
  define acc3 where "acc3 = (if IncludeNumbers opts then add_class ?N acc2 else acc2)"
  obtain cs3 g3 src3 where a3: "acc3 = (cs3, g3, src3)" "reliable src3" "set g3 \<subseteq> set cs3"
    "set cs2 \<subseteq> set cs3" "set cs3 \<subseteq> set cs2 \<union> set ?N" "set g2 \<subseteq> set g3" "length g3 \<le> Suc (length g2)"
    "IncludeNumbers opts \<longrightarrow> cs3 \<noteq> [] \<and> (\<exists>c\<in>set g3. c \<in> set ?N)"
    using optional_class [OF a2(2) class_chars_number(1) a2(3), of "IncludeNumbers opts" ?e]
    unfolding acc3_def a2(1) by blast
  define acc4 where "acc4 = (if IncludeSymbols opts then add_class symbolChars acc3 else acc3)"
  obtain cs4 g4 src4 where a4: "acc4 = (cs4, g4, src4)" "reliable src4" "set g4 \<subseteq> set cs4"
    "set cs3 \<subseteq> set cs4" "set cs4 \<subseteq> set cs3 \<union> set symbolChars" "set g3 \<subseteq> set g4"
    "length g4 \<le> Suc (length g3)"
    "IncludeSymbols opts \<longrightarrow> cs4 \<noteq> [] \<and> (\<exists>c\<in>set g4. c \<in> set symbolChars)"
    using optional_class [OF a3(2) symbol_facts(1) a3(3), of "IncludeSymbols opts"]
    unfolding acc4_def a3(1) by blast
  have cs4_ne: "cs4 \<noteq> []"
    using cls a1(6) a2(4,8) a3(4,8) a4(4,8) by (metis set_empty subset_empty)
  have g4_len: "length g4 \<le> ?n"
    using a1(5) a2(7) a3(7) a4(7) len by linarith
  have cs4_sub: "set cs4 \<subseteq> set ?U \<union> set ?L \<union> set ?N \<union> set symbolChars"
    using a1(4) a2(5) a3(5) a4(5) by blast
  define pw0 where "pw0 = place_guaranteed g4 (replicate ?n (CHR 0x00))"
  have pw0: "length pw0 = ?n" "take (length g4) pw0 = g4"
    using place_guaranteed_spec [of g4 "replicate ?n (CHR 0x00)"] g4_len by (simp_all add: pw0_def)
  from fill_loop_reliable [OF a4(2) cs4_ne g4_len pw0(1)] obtain filled src5 where
    f: "fill_loop cs4 (length g4) ?n pw0 src4 = (Inr filled, src5)" "length filled = ?n"
       "take (length g4) filled = take (length g4) pw0" "set (drop (length g4) filled) \<subseteq> set cs4"
       "reliable src5"
    by blast
  from shuffleBytes_reliable [OF f(5), of filled] obtain password src6 where
    s: "shuffleBytes filled src5 = ((None, password), src6)" "mset password = mset filled"
    by blast
  have set_pw: "set password = set filled" using s(2) by (rule mset_eq_setD)
  have len_pw: "length password = ?n" using s(2) f(2) by (metis size_mset)
  have "filled = g4 @ drop (length g4) filled"
    using f(3) pw0(2) by (metis append_take_drop_id)
  then have set_filled: "set filled = set g4 \<union> set (drop (length g4) filled)"
    by (metis set_append)
  have sub: "set password \<subseteq> set cs4" and sup: "set g4 \<subseteq> set password"
    using set_pw set_filled a4(3) f(4) by auto
  note unfolded = a4(1) [unfolded acc4_def acc3_def acc2_def acc1_def]
  have run: "GeneratePassword opts src = (Inr password, src6)"
    unfolding GeneratePassword_def Let_def unfolded
    using len cls f(1) [unfolded pw0_def] s(1) by simp
  have up: "IncludeUppercase opts \<longrightarrow> (\<exists>c\<in>set password. c \<in> set uppercaseChars)"
    using a1(6) a2(6) a3(6) a4(6) sup class_chars_upper(2) [of ?e] by blast
  have lo: "IncludeLowercase opts \<longrightarrow> (\<exists>c\<in>set password. c \<in> set lowercaseChars)"
    using a2(8) a3(6) a4(6) sup class_chars_lower(2) [of ?e] by blast
  have nu: "IncludeNumbers opts \<longrightarrow> (\<exists>c\<in>set password. c \<in> set numberChars)"
    using a3(8) a4(6) sup class_chars_number(2) [of ?e] by blast
  have sy: "IncludeSymbols opts \<longrightarrow> (\<exists>c\<in>set password. c \<in> set symbolChars)"
    using a4(8) sup by blast
  have am: "ExcludeAmbiguous opts \<longrightarrow> set password \<inter> set ambiguousChars = {}"
    using sub cs4_sub class_chars_upper(3) [of ?e] class_chars_lower(3) [of ?e]
      class_chars_number(3) [of ?e] symbol_facts(2) by blast
  from run len_pw len up lo nu sy am show ?thesis by simp
qed

theorem C5_GeneratePassword_covers_witness:
  "\<exists>password src'.
     GeneratePassword \<lparr>Length = 10, IncludeUppercase = True, IncludeLowercase = True,
         IncludeNumbers = True, IncludeSymbols = False, ExcludeAmbiguous = True\<rparr>
       (\<lambda>i. Some (7 * i + 3)) = (Inr password, src') \<and>
     length password = 10 \<and>
     (\<exists>c\<in>set password. c \<in> set uppercaseChars) \<and>
     (\<exists>c\<in>set password. c \<in> set lowercaseChars) \<and>
     (\<exists>c\<in>set password. c \<in> set numberChars) \<and>
     set password \<inter> set ambiguousChars = {}"
  using C5_GeneratePassword_covers [of "\<lambda>i. Some (7 * i + 3)"
      "\<lparr>Length = 10, IncludeUppercase = True, IncludeLowercase = True,
         IncludeNumbers = True, IncludeSymbols = False, ExcludeAmbiguous = True\<rparr>"]
  by (simp add: reliable_def)

section \<open>Properties of the store\<close>

lemma ancestors_shorter: "p \<in> set (ancestors path) \<Longrightarrow> length p < length path"
  by (auto simp: ancestors_def)

lemma ancestors_not_self: "path \<notin> set (ancestors path)"
  using ancestors_shorter by blast

lemma traverse_update:
  "name \<notin> set ds \<Longrightarrow> traverse (AList.update name n fs) ds = traverse fs ds"
  by (induction ds) (auto simp: update_conv' split: option.splits node.splits)

lemma os_lookup_update:
  "os_lookup (AList.update name n fs) name =
     (case os_lookup fs name of Inl err \<Rightarrow> Inl err | Inr x \<Rightarrow> Inr (Some n))"
  by (simp add: os_lookup_def traverse_update ancestors_not_self update_conv'
        split: option.splits)

lemma os_lookup_Inr: "os_lookup fs name = Inr x \<Longrightarrow> x = map_of fs name"
  by (auto simp: os_lookup_def split: if_splits option.splits)

lemma os_WriteFile_lookup:
  assumes "fst (os_WriteFile fs um name bytes perm) = None"
  shows "os_lookup fs name = Inr (map_of fs name)"
  using assms os_lookup_Inr [of fs name]
  by (auto simp: os_WriteFile_def split: sum.splits option.splits node.splits if_splits)

lemma os_WriteFile_ok:
  assumes "fst (os_WriteFile fs um name bytes perm) = None"
  shows "map_of (snd (os_WriteFile fs um name bytes perm)) =
           (map_of fs)(name \<mapsto> File (case map_of fs name of Some (File m old) \<Rightarrow> m | _ \<Rightarrow> perm AND NOT um) bytes)"
proof -
  have l: "os_lookup fs name = Inr (map_of fs name)"
    using assms by (rule os_WriteFile_lookup)
  show ?thesis
    using assms
    by (auto simp: os_WriteFile_def l update_conv' split: option.splits node.splits if_splits)
qed

lemma os_WriteFile_snd:
  assumes "fst (os_WriteFile fs um name bytes perm) = None"
  shows "snd (os_WriteFile fs um name bytes perm) =
           AList.update name
             (File (case map_of fs name of Some (File m old) \<Rightarrow> m | _ \<Rightarrow> perm AND NOT um) bytes) fs"
proof -
  have l: "os_lookup fs name = Inr (map_of fs name)"
    using assms by (rule os_WriteFile_lookup)
  show ?thesis
    using assms
    by (auto simp: os_WriteFile_def l split: option.splits node.splits if_splits)
qed

lemma os_ReadFile_update:
  assumes "os_lookup fs name = Inr x"
  shows "os_ReadFile (AList.update name (File m bytes) fs) name =
           (if owner_read m then Inr bytes else Inl ErrPermission)"
  using assms by (simp add: os_ReadFile_def os_lookup_update)

lemma os_ReadFile_after_write:
  assumes "fst (os_WriteFile fs um name bytes perm) = None"
  shows "os_ReadFile (snd (os_WriteFile fs um name bytes perm)) name =
           (if owner_read (case map_of fs name of Some (File m old) \<Rightarrow> m | _ \<Rightarrow> perm AND NOT um)
            then Inr bytes else Inl ErrPermission)"
  using os_ReadFile_update [OF os_WriteFile_lookup [OF assms]]
  by (simp add: os_WriteFile_snd [OF assms])

lemma WriteToFile_files:
  "files (snd (WriteToFile fileName input st)) =
     snd (os_WriteFile (files st) (umask st) (store_path (passwordFolder st) fileName) input perm_0666)"
  "fst (WriteToFile fileName input st) =
     fst (os_WriteFile (files st) (umask st) (store_path (passwordFolder st) fileName) input perm_0666)"
  "passwordFolder (snd (WriteToFile fileName input st)) = passwordFolder st"
  by (auto simp: WriteToFile_def split: prod.splits option.splits)

text \<open>
  Claim C10, as stated, fails. The claim: whenever \<open>WriteToFile\<close> succeeds, \<open>ReadFromFile\<close>
  of the same key, called next, succeeds and returns the bytes written. In the fresh
  store under the umask \<open>0400\<close> (\<open>0x100\<close>), \<open>WriteToFile\<close> creates the file with mode
  \<open>0266\<close>, without the owner-read bit: the write succeeds, and the read that follows is
  refused.
\<close>

theorem C10_unreadable_after_write:
  "fst (WriteToFile ''github_20240830_143045'' ''sealed bytes'' (fresh_store\<lparr>umask := 0x100\<rparr>)) = None \<and>
   ReadFromFile ''github_20240830_143045''
     (snd (WriteToFile ''github_20240830_143045'' ''sealed bytes'' (fresh_store\<lparr>umask := 0x100\<rparr>)))
     = Inl ErrPermission"
  by code_simp

text \<open>
  Claim C10, amended. For every key and byte sequence, if \<open>WriteToFile\<close> succeeds and the
  file it leaves carries the owner-read bit (a file that existed and carried it, or a new
  file under a umask that leaves it), then \<open>ReadFromFile\<close> of the same key, called next,
  succeeds and returns exactly those bytes; both address the path made of the root
  directory, a slash, the key and \<open>.gpg\<close>.
\<close>

theorem C10_write_then_read:
  assumes "fst (WriteToFile fileName input st) = None"
    and "owner_read
           (case map_of (files st) (FolderLocation (passwordFolder st) @ ''/'' @ fileName @ ''.gpg'') of
              Some (File m old) \<Rightarrow> m
            | _ \<Rightarrow> 0x1B6 AND NOT (umask st))"
  shows "ReadFromFile fileName (snd (WriteToFile fileName input st)) = Inr input \<and>
         ReadFromFile fileName (snd (WriteToFile fileName input st)) =
           os_ReadFile (files (snd (WriteToFile fileName input st)))
             (FolderLocation (passwordFolder st) @ ''/'' @ fileName @ ''.gpg'') \<and>
         (\<exists>m. map_of (files (snd (WriteToFile fileName input st)))
                 (FolderLocation (passwordFolder st) @ ''/'' @ fileName @ ''.gpg'') =
               Some (File m input))"
proof -
  let ?st' = "snd (WriteToFile fileName input st)"
  let ?path = "store_path (passwordFolder st) fileName"
  have ok: "fst (os_WriteFile (files st) (umask st) ?path input perm_0666) = None"
    using assms(1) by (simp add: WriteToFile_files(2))
  have node: "\<exists>m. map_of (files ?st') ?path = Some (File m input)"
    using os_WriteFile_ok [OF ok] by (simp add: WriteToFile_files(1))
  have "os_ReadFile (files ?st') ?path = Inr input"
    using os_ReadFile_after_write [OF ok] assms(2) [unfolded perm_0666_def [symmetric]]
    by (simp add: WriteToFile_files(1) store_path_def perm_0666_def)
  moreover have "ReadFromFile fileName ?st' = os_ReadFile (files ?st') ?path"
    by (simp add: ReadFromFile_def WriteToFile_files(3) split: sum.splits)
  ultimately show ?thesis using node by (simp add: store_path_def)
qed

text \<open>A record written to the fresh store, under the umask \<open>022\<close>, and read back.\<close>

theorem C10_write_then_read_witness:
  "fst (WriteToFile ''github_20240830_143045'' ''sealed bytes'' fresh_store) = None \<and>
   ReadFromFile ''github_20240830_143045''
     (snd (WriteToFile ''github_20240830_143045'' ''sealed bytes'' fresh_store)) = Inr ''sealed bytes''"
proof -
  have ok: "fst (WriteToFile ''github_20240830_143045'' ''sealed bytes'' fresh_store) = None"
    by code_simp
  have r: "owner_read
      (case map_of (files fresh_store)
              (FolderLocation (passwordFolder fresh_store) @ ''/'' @ ''github_20240830_143045'' @ ''.gpg'') of
         Some (File m old) \<Rightarrow> m
       | _ \<Rightarrow> 0x1B6 AND NOT (umask fresh_store))"
    by code_simp
  from C10_write_then_read [OF ok r] ok show ?thesis by simp
qed

text \<open>
  Claim C7, as stated, fails. The claim: every file that the store writes is created with
  owner-only permissions, no bit for the group or for others. In the fresh store, under
  the umask \<open>022\<close>, \<open>WriteToFile\<close> creates the file with mode \<open>0644\<close> (\<open>0x1A4\<close>), whose
  bits for the group and for others (mask \<open>077\<close>, \<open>0x3F\<close>) are \<open>044\<close>: readable by both.
\<close>

theorem C7_group_and_world_readable:
  "map_of (files (snd (WriteToFile ''github_20240830_143045'' ''sealed bytes'' fresh_store)))
     (store_root @ ''/github_20240830_143045.gpg'') = Some (File 0x1A4 ''sealed bytes'') \<and>
   (0x1A4 :: FileMode) AND 0x3F = 0x24 \<and>
   (0x1A4 :: FileMode) AND 0x3F \<noteq> 0"
  by code_simp

text \<open>
  Claim C7, amended. Every write of the store goes to the path of the key under the root
  and changes no other path; when it succeeds, a file that existed keeps its permission
  bits, so that no write relaxes them, and a file that is created is not made owner-only:
  it gets the bits asked of the operating system, \<open>0666\<close> (\<open>0x1B6\<close>), less the bits of
  the umask of the process.
\<close>

theorem C7_mode_of_written_file:
  assumes "fst (WriteToFile fileName input st) = None"
  shows "map_of (files (snd (WriteToFile fileName input st))) =
           (map_of (files st))
             (FolderLocation (passwordFolder st) @ ''/'' @ fileName @ ''.gpg'' \<mapsto>
                File (case map_of (files st) (FolderLocation (passwordFolder st) @ ''/'' @ fileName @ ''.gpg'') of
                        Some (File m old) \<Rightarrow> m
                      | _ \<Rightarrow> 0x1B6 AND NOT (umask st))
                  input)"
  using assms
    os_WriteFile_ok [of "files st" "umask st" "store_path (passwordFolder st) fileName" input
      perm_0666, unfolded perm_0666_def]
  by (simp add: WriteToFile_files store_path_def perm_0666_def)

text \<open>The write to the fresh store, under the umask \<open>022\<close>.\<close>

theorem C7_mode_of_written_file_witness:
  "fst (WriteToFile ''github_20240830_143045'' ''sealed bytes'' fresh_store) = None \<and>
   map_of (files (snd (WriteToFile ''github_20240830_143045'' ''sealed bytes'' fresh_store)))
     (store_root @ ''/github_20240830_143045.gpg'') = Some (File 0x1A4 ''sealed bytes'')"
proof -
  have ok: "fst (WriteToFile ''github_20240830_143045'' ''sealed bytes'' fresh_store) = None"
    by code_simp
  have new: "map_of (files fresh_store) (store_root @ ''/github_20240830_143045.gpg'') = None"
    by code_simp
  have m: "(0x1B6 :: FileMode) AND NOT (umask fresh_store) = 0x1A4"
    by code_simp
  have loc: "FolderLocation (passwordFolder fresh_store) = store_root"
    by (simp add: fresh_store_def)
  from C7_mode_of_written_file [OF ok] ok new m loc show ?thesis by simp
qed

section \<open>The reference instance meets the contracts\<close>

lemma is_digit_digit_char: "is_digit (digit_char d)"
proof -
  have "d mod 10 < 10" by simp
  then show ?thesis
    unfolding is_digit_def byte_in_def of_char_digit_char by linarith
qed

lemma all_digits_decimal: "list_all is_digit (decimal n)"
  using set_decimal is_digit_digit_char by (fastforce simp: list_all_iff)

lemma parse_decimal_snoc:
  "parse_decimal (ds @ [c]) = 10 * parse_decimal ds + (of_char c - 48)"
  by (simp add: parse_decimal_def)

lemma parse_decimal_decimal: "parse_decimal (decimal n) = n"
proof (induction n rule: decimal.induct)
  case (1 n)
  have v: "(of_char (digit_char n) :: nat) - 48 = n mod 10"
    by (simp add: of_char_digit_char)
  show ?case
  proof (cases "n < 10")
    case True
    then show ?thesis
      using v by (subst decimal.simps) (simp add: parse_decimal_def)
  next
    case False
    then have "parse_decimal (decimal n) = 10 * parse_decimal (decimal (n div 10)) + n mod 10"
      using v by (subst decimal.simps) (simp add: parse_decimal_snoc)
    with False "1.IH" show ?thesis by simp
  qed
qed

lemma colon_not_digit: "\<not> is_digit (CHR '':'')"
  by (simp add: is_digit_def byte_in_def)

lemma ref_get_put: "ref_get (ref_put s @ rest) = Some (s, rest)"
proof -
  let ?ds = "decimal (length s)"
  have all: "\<forall>c\<in>set ?ds. is_digit c"
    using all_digits_decimal [of "length s"] by (simp add: list_all_iff)
  have tw: "takeWhile is_digit (?ds @ CHR '':'' # s @ rest) = ?ds"
    using all colon_not_digit by simp
  have dw: "dropWhile is_digit (?ds @ CHR '':'' # s @ rest) = CHR '':'' # s @ rest"
    using all colon_not_digit by simp
  show ?thesis
    using tw dw by (simp add: ref_get_def ref_put_def Let_def parse_decimal_decimal decimal_not_Nil)
qed

lemma ref_get_many_put:
  "ref_get_many (length xs) (concat (map ref_put xs) @ rest) = Some (xs, rest)"
  by (induction xs) (simp_all add: ref_get_put)

lemma time_of_fields_time_fields: "time_of_fields (time_fields t) = Some t"
  by (simp add: time_of_fields_def time_fields_def decimal_not_Nil all_digits_decimal
        parse_decimal_decimal)

lemma length_time_fields: "length (time_fields t) = 7"
  by (simp add: time_fields_def)

lemma data_of_fields_data_fields: "data_of_fields (data_fields d) = Some d"
  by (simp add: data_of_fields_def data_fields_def length_time_fields time_of_fields_time_fields)

lemma length_data_fields: "length (data_fields d) = 18"
  by (simp add: data_fields_def length_time_fields)

lemma ref_Unmarshal_Marshal:
  "ref_Unmarshal (concat (map ref_put (data_fields d))) d0 = (None, d)"
  using ref_get_many_put [of "data_fields d" "[]"]
  by (simp add: ref_Unmarshal_def length_data_fields data_of_fields_data_fields)

lemma ref_Decrypt_Encrypt:
  "ref_Decrypt other (ref_put password @ plaintext) =
     (if password = other then Inr plaintext else Inl ErrCipher)"
  by (simp add: ref_Decrypt_def ref_get_put)

lemma ref_lib_contracts:
  "cipher_roundtrip ref_lib" "cipher_authentic ref_lib" "json_roundtrip ref_lib"
  by (auto simp: cipher_roundtrip_def cipher_authentic_def json_roundtrip_def ref_lib_def
        ref_Encrypt_def ref_Decrypt_Encrypt ref_Marshal_def ref_Unmarshal_Marshal)

lemma ref_lib_sel [simp]:
  "json_Marshal ref_lib = ref_Marshal" "json_Unmarshal ref_lib = ref_Unmarshal"
  "pgp_Encrypt ref_lib = ref_Encrypt" "pgp_Decrypt ref_lib = ref_Decrypt"
  by (simp_all add: ref_lib_def)


section \<open>Properties of opening a record\<close>

lemma print_all_frame [simp]:
  "files (print_all ls st) = files st"
  "passwordFolder (print_all ls st) = passwordFolder st"
  "options (print_all ls st) = options st"
  "umask (print_all ls st) = umask st"
  by (induction ls arbitrary: st) (simp_all add: print_all_def print_def)

lemma stdout_print_all [simp]: "stdout (print_all ls st) = stdout st @ ls"
  by (induction ls arbitrary: st) (simp_all add: print_all_def print_def)

lemma setters_frame [simp]:
  "files (set_Password p st) = files st"
  "files (set_ErrorMessage m st) = files st"
  "files (set_Quit b st) = files st"
  "files (set_InitCheck b st) = files st"
  "umask (set_Password p st) = umask st"
  "umask (set_ErrorMessage m st) = umask st"
  "stdout (set_Password p st) = stdout st"
  "stdout (set_ErrorMessage m st) = stdout st"
  "passwordFolder (set_Password p st) = (passwordFolder st)\<lparr>PasswordFolder.Password := p\<rparr>"
  "passwordFolder (set_ErrorMessage m st) = passwordFolder st"
  "passwordFolder (set_Quit b st) = passwordFolder st"
  "options (set_Password p st) = options st"
  by (simp_all add: set_Password_def set_ErrorMessage_def set_Quit_def set_InitCheck_def)

lemma time_Now_frame [simp]:
  "files (snd (time_Now st)) = files st"
  "passwordFolder (snd (time_Now st)) = passwordFolder st"
  "umask (snd (time_Now st)) = umask st"
  "stdout (snd (time_Now st)) = stdout st"
  by (simp_all add: time_Now_def)

lemma Decrypt_open_record:
  "DecryptPasswordFromFile lib fileName st =
     open_record lib (files st) (FolderLocation (passwordFolder st))
       (PasswordFolder.Password (passwordFolder st)) fileName"
  by (simp add: DecryptPasswordFromFile_def open_record_def ReadFromFile_def store_path_def
        split: sum.splits)

lemma Decrypt_ignores_options [simp]:
  "DecryptPasswordFromFile lib fileName (set_ErrorMessage m st) = DecryptPasswordFromFile lib fileName st"
  "DecryptPasswordFromFile lib fileName (set_Quit b st) = DecryptPasswordFromFile lib fileName st"
  by (simp_all add: Decrypt_open_record)

lemma read_bootstrapped:
  "os_ReadFile (files bootstrapped_store) (store_root @ ''/.checker/init.gpg'') =
     Inr (ref_seal ''correcthorse'' example_validation)"
  by code_simp

lemma bootstrapped_root [simp]: "FolderLocation (passwordFolder bootstrapped_store) = store_root"
  by (simp add: bootstrapped_store_def)

lemma open_bootstrapped:
  "DecryptPasswordFromFile ref_lib ''.checker/init'' (set_Password p bootstrapped_store) =
     (if p = ''correcthorse'' then Inr example_validation else Inl ErrCipher)"
  by (auto simp: Decrypt_open_record open_record_def read_bootstrapped ref_seal_def
        ref_Decrypt_Encrypt ref_Unmarshal_Marshal)

text \<open>
  The example store \<open>bootstrapped_store\<close> is what the first-time setup of \<open>Login\<close> leaves
  of the fresh store, at the moment it waits for the password of the first login.
\<close>

lemma bootstrapped_is_setup:
  "(case Login ref_lib [Enter ''correcthorse'', Enter ''the quick brown fox jumps''] fresh_store of
      (out, script, st) \<Rightarrow> (out, script, passwordFolder st, options st, files st, umask st, stdout st, ticks st))
   = (Waiting, [], passwordFolder bootstrapped_store, options bootstrapped_store,
      files bootstrapped_store, umask bootstrapped_store, stdout bootstrapped_store,
      ticks bootstrapped_store)"
  by code_simp

text \<open>
  Claim C9. When the stored bytes decrypt and the plaintext cannot be deserialised, opening
  the record should fail with a deserialisation error. The code does not: the error of
  \<open>json.Unmarshal\<close> is dropped, and \<open>DecryptPasswordFromFile\<close> returns, as a success,
  whatever the record has become (the zero record when the plaintext is not JSON at all).
\<close>

theorem C9_unmarshal_error_dropped:
  assumes "ReadFromFile fileName st = Inr fileData"
    and "pgp_Decrypt lib (PasswordFolder.Password (passwordFolder st)) fileData = Inr decrypted"
    and "json_Unmarshal lib decrypted zero_Data = (Some err, data)"
  shows "DecryptPasswordFromFile lib fileName st = Inr data"
  using assms by (simp add: DecryptPasswordFromFile_def)

lemma ref_Unmarshal_foreign: "ref_Unmarshal ''not a record'' zero_Data = (Some ErrSyntax, zero_Data)"
  by code_simp

text \<open>The file \<open>notes.gpg\<close> of the example store opens to the zero record.\<close>

theorem C9_unmarshal_error_dropped_example:
  "ReadFromFile ''notes'' store_with_foreign_file = Inr (ref_put ''correcthorse'' @ ''not a record'') \<and>
   pgp_Decrypt ref_lib ''correcthorse'' (ref_put ''correcthorse'' @ ''not a record'') = Inr ''not a record'' \<and>
   json_Unmarshal ref_lib ''not a record'' zero_Data = (Some ErrSyntax, zero_Data) \<and>
   DecryptPasswordFromFile ref_lib ''notes'' store_with_foreign_file = Inr zero_Data"
proof -
  have r: "ReadFromFile ''notes'' store_with_foreign_file = Inr (ref_put ''correcthorse'' @ ''not a record'')"
    by code_simp
  have p: "PasswordFolder.Password (passwordFolder store_with_foreign_file) = ''correcthorse''"
    by (simp add: store_with_foreign_file_def)
  have d: "pgp_Decrypt ref_lib (PasswordFolder.Password (passwordFolder store_with_foreign_file))
             (ref_put ''correcthorse'' @ ''not a record'') = Inr ''not a record''"
    by (simp add: p ref_Decrypt_Encrypt)
  have u: "json_Unmarshal ref_lib ''not a record'' zero_Data = (Some ErrSyntax, zero_Data)"
    by (simp add: ref_Unmarshal_foreign)
  from C9_unmarshal_error_dropped [OF r d u] r d u p show ?thesis by simp
qed

section \<open>Properties of Login\<close>

text \<open>
  Claim C8. On a store that is initialized, \<open>Login\<close> changes no file: for every script of
  the user, whether the login succeeds, fails or is left waiting, the file system after
  the call is the one before it.
\<close>

theorem C8_Login_frame:
  assumes "InitCheck (passwordFolder st)"
  shows "files (snd (snd (Login lib script st))) = files st"
  using assms
  by (simp add: Login_def login_prompt_def Let_def
        split: list.splits run_result.splits sum.splits)

text \<open>A login that succeeds and one that fails, on the bootstrapped store.\<close>

theorem C8_Login_frame_witness:
  "InitCheck (passwordFolder bootstrapped_store) \<and>
   files (snd (snd (Login ref_lib [Enter ''correcthorse''] bootstrapped_store))) =
     files bootstrapped_store \<and>
   files (snd (snd (Login ref_lib [Enter ''wrongsecret1''] bootstrapped_store))) =
     files bootstrapped_store"
proof -
  have i: "InitCheck (passwordFolder bootstrapped_store)"
    by (simp add: bootstrapped_store_def)
  from C8_Login_frame [OF i, of ref_lib "[Enter ''correcthorse'']"]
    C8_Login_frame [OF i, of ref_lib "[Enter ''wrongsecret1'']"] i
  show ?thesis by simp
qed

text \<open>
  Claim C3. After a login that succeeds, the password of the session should be the
  passphrase the user entered. The code does not keep it: \<open>Login\<close> returns true and then
  holds in \<open>passwordFolder.Password\<close> the \<open>Password\<close> field of the validation record it has
  opened, which is the validation phrase chosen at setup.
\<close>

theorem C3_session_holds_phrase:
  assumes "InitCheck (passwordFolder st)"
    and "DecryptPasswordFromFile lib ''.checker/init'' (set_Password entered st) = Inr data"
  shows "\<exists>st'. Login lib (Enter entered # script) st = (Returned (True, None), script, st') \<and>
           PasswordFolder.Password (passwordFolder st') = Data.Password data"
proof -
  have "DecryptPasswordFromFile lib ''.checker/init'' (set_Password entered (set_ErrorMessage [] st))
          = Inr data"
    using assms(2) by (simp add: Decrypt_open_record)
  with assms(1) show ?thesis
    by (simp add: Login_def login_prompt_def Let_def)
qed

text \<open>
  On the bootstrapped store the user enters \<open>correcthorse\<close>; the session then holds the
  phrase.
\<close>

theorem C3_session_holds_phrase_example:
  "\<exists>st'. Login ref_lib [Enter ''correcthorse''] bootstrapped_store = (Returned (True, None), [], st') \<and>
         PasswordFolder.Password (passwordFolder st') = ''the quick brown fox jumps'' \<and>
         PasswordFolder.Password (passwordFolder st') \<noteq> ''correcthorse''"
proof -
  have i: "InitCheck (passwordFolder bootstrapped_store)"
    by (simp add: bootstrapped_store_def)
  have d: "DecryptPasswordFromFile ref_lib ''.checker/init''
             (set_Password ''correcthorse'' bootstrapped_store) = Inr example_validation"
    by (simp add: open_bootstrapped)
  from C3_session_holds_phrase [OF i d, of "[]"] show ?thesis
    by (auto simp: example_validation_def)
qed

section \<open>Properties of the rotation of the master password\<close>

text \<open>
  Claim C2. When the change form is submitted with a current password under which the
  validation record does not open, \<open>ChangeMasterPassword\<close> returns false without an error
  value, prints that the current password is incorrect, leaves every file and the
  password of the session as they were, and the validation record opens afterwards under
  exactly the passwords it opened under before.
\<close>

theorem C2_wrong_current_password:
  assumes "submitted form" "\<not> cancelled form"
    and "DecryptPasswordFromFile lib ''.checker/init'' (set_Password (currentPass form) st) = Inl err"
  shows "\<exists>st'. ChangeMasterPassword lib (Inr form) st = ((False, None), st') \<and>
           files st' = files st \<and>
           passwordFolder st' = passwordFolder st \<and>
           cross_mark @ '' Error: Current password is incorrect'' @ newline @ newline \<in> set (stdout st') \<and>
           (\<forall>p. DecryptPasswordFromFile lib ''.checker/init'' (set_Password p st') =
                DecryptPasswordFromFile lib ''.checker/init'' (set_Password p st))"
proof -
  have "DecryptPasswordFromFile lib ''.checker/init''
          (set_Password (currentPass form) (set_ErrorMessage [] st)) = Inl err"
    using assms(3) by (simp add: Decrypt_open_record)
  with assms(1,2) show ?thesis
    by (simp add: ChangeMasterPassword_def Let_def Decrypt_open_record)
qed

text \<open>
  A wrong current password on the bootstrapped store: the record still opens under
  \<open>correcthorse\<close>, and not under the new password.
\<close>

theorem C2_wrong_current_password_witness:
  "\<exists>st'.
     ChangeMasterPassword ref_lib
       (Inr \<lparr>submitted = True, cancelled = False, currentPass = ''wrongsecret1'',
             newPass = ''batterystaple'', confirmPass = ''batterystaple''\<rparr>)
       bootstrapped_store = ((False, None), st') \<and>
     files st' = files bootstrapped_store \<and>
     DecryptPasswordFromFile ref_lib ''.checker/init'' (set_Password ''correcthorse'' st') =
       Inr example_validation \<and>
     DecryptPasswordFromFile ref_lib ''.checker/init'' (set_Password ''batterystaple'' st') =
       Inl ErrCipher"
proof -
  let ?form = "\<lparr>submitted = True, cancelled = False, currentPass = ''wrongsecret1'',
                 newPass = ''batterystaple'', confirmPass = ''batterystaple''\<rparr>"
  have wrong: "DecryptPasswordFromFile ref_lib ''.checker/init''
                 (set_Password (currentPass ?form) bootstrapped_store) = Inl ErrCipher"
    by (simp add: open_bootstrapped)
  have "submitted ?form" "\<not> cancelled ?form" by simp_all
  from C2_wrong_current_password [OF this wrong] show ?thesis
    by (auto simp: open_bootstrapped)
qed

lemma open_record_Inr_file:
  assumes "open_record lib fs root password fileName = Inr data"
  shows "\<exists>m bytes. os_lookup fs (root @ ''/'' @ fileName @ ''.gpg'') = Inr (Some (File m bytes)) \<and>
           owner_read m"
  using assms
  by (auto simp: open_record_def os_ReadFile_def
        split: option.splits node.splits sum.splits if_splits)

lemma os_Stat_lookup:
  "os_Stat fs name = Inr n \<Longrightarrow> os_lookup fs name = Inr (Some n)"
  by (auto simp: os_Stat_def split: sum.splits option.splits)

lemma seal_existing:
  assumes "os_lookup (files st) (store_path (passwordFolder st) fileName) = Inr (Some (File m old))"
    and "owner_write m"
    and "json_Marshal lib data = Inr jsonData"
    and "pgp_Encrypt lib (PasswordFolder.Password (passwordFolder st)) jsonData = Inr armored"
  shows "EncryptPasswordAndWriteToFile lib fileName data st =
           (None, st\<lparr>files := AList.update (store_path (passwordFolder st) fileName)
                                 (File m armored) (files st)\<rparr>)"
  using assms
  by (simp add: EncryptPasswordAndWriteToFile_def WriteToFile_def os_WriteFile_def)

lemma open_record_after_seal:
  assumes "os_lookup fs (root @ ''/'' @ fileName @ ''.gpg'') = Inr x" and "owner_read m"
  shows "open_record lib (AList.update (root @ ''/'' @ fileName @ ''.gpg'') (File m armored) fs) root
     password fileName =
     (case pgp_Decrypt lib password armored of
        Inl err \<Rightarrow> Inl err
      | Inr decrypted \<Rightarrow> Inr (snd (json_Unmarshal lib decrypted zero_Data)))"
  using assms by (simp add: open_record_def os_ReadFile_update)

lemma opens_readonly:
  "DecryptPasswordFromFile ref_lib ''.checker/init'' (set_Password ''correcthorse'' readonly_store) =
     Inr example_validation"
  by code_simp

text \<open>
  Claim C1, as stated, fails, in two ways. The claim: with the correct current password
  \<open>A\<close> and a new password \<open>B\<close> of at least 8 bytes the rotation succeeds, and afterwards
  the validation record opens under \<open>B\<close> and not under \<open>A\<close>.
  \<^item> The form and \<open>ChangeMasterPassword\<close> accept a new password equal to the current one:
    on the bootstrapped store, with \<open>correcthorse\<close> for both, the rotation returns true and
    the record still opens under \<open>correcthorse\<close>.
  \<^item> In the store whose validation file is read-only the record opens under
    \<open>correcthorse\<close>, which is thus the correct current password; the write of the
    re-sealed record is refused there, and the rotation to \<open>batterystaple\<close> returns false.
\<close>

theorem C1_rotation_fails_as_stated:
  "fst (ChangeMasterPassword ref_lib
          (Inr \<lparr>submitted = True, cancelled = False, currentPass = ''correcthorse'',
                newPass = ''correcthorse'', confirmPass = ''correcthorse''\<rparr>)
          bootstrapped_store) = (True, None) \<and>
   DecryptPasswordFromFile ref_lib ''.checker/init''
     (set_Password ''correcthorse''
        (snd (ChangeMasterPassword ref_lib
                (Inr \<lparr>submitted = True, cancelled = False, currentPass = ''correcthorse'',
                      newPass = ''correcthorse'', confirmPass = ''correcthorse''\<rparr>)
                bootstrapped_store))) = Inr (example_validation\<lparr>UpdatedAt := clock bootstrapped_store 2\<rparr>) \<and>
   DecryptPasswordFromFile ref_lib ''.checker/init'' (set_Password ''correcthorse'' readonly_store) =
     Inr example_validation \<and>
   fst (ChangeMasterPassword ref_lib
          (Inr \<lparr>submitted = True, cancelled = False, currentPass = ''correcthorse'',
                newPass = ''batterystaple'', confirmPass = ''batterystaple''\<rparr>)
          readonly_store) = (False, None)"
  by code_simp

text \<open>
  Claim C1, amended. The validation record opens under the current password \<open>A\<close>, and
  its file carries the owner-write bit; the form is submitted with \<open>A\<close> and a new password
  \<open>B\<close> of at least 8 bytes, other than \<open>A\<close>. Then \<open>ChangeMasterPassword\<close> succeeds, and
  afterwards the validation record opens under \<open>B\<close> with the phrase it held before, does
  not open under \<open>A\<close>, and the password of the session is \<open>B\<close>. The cipher and the
  serialisation are taken to meet their contracts.
\<close>

theorem C1_rotation:
  assumes cipher: "cipher_roundtrip lib" "cipher_authentic lib"
    and json: "json_roundtrip lib"
    and form: "submitted form" "\<not> cancelled form"
    and new: "8 \<le> length (newPass form)" "currentPass form \<noteq> newPass form"
    and old: "DecryptPasswordFromFile lib ''.checker/init'' (set_Password (currentPass form) st) =
                Inr record"
    and writable:
      "os_Stat (files st) (FolderLocation (passwordFolder st) @ ''/.checker/init.gpg'') =
         Inr (File m bytes)"
      "owner_write m"
  shows "\<exists>st' record'.
           ChangeMasterPassword lib (Inr form) st = ((True, None), st') \<and>
           PasswordFolder.Password (passwordFolder st') = newPass form \<and>
           DecryptPasswordFromFile lib ''.checker/init'' (set_Password (newPass form) st') = Inr record' \<and>
           Data.Password record' = Data.Password record \<and>
           isl (DecryptPasswordFromFile lib ''.checker/init'' (set_Password (currentPass form) st'))"
proof -
  let ?A = "currentPass form" and ?B = "newPass form"
  let ?root = "FolderLocation (passwordFolder st)"
  let ?path = "?root @ ''/.checker/init.gpg''"
  define st1 where "st1 = set_Password ?A (set_ErrorMessage [] st)"
  define st3 where "st3 = snd (time_Now (set_Password ?B st1))"
  define now where "now = fst (time_Now (set_Password ?B st1))"
  define validationData where "validationData = record\<lparr>UpdatedAt := now\<rparr>"
  have open1: "DecryptPasswordFromFile lib ''.checker/init'' st1 = Inr record"
    using old by (simp add: st1_def Decrypt_open_record)
  have node: "os_lookup (files st) ?path = Inr (Some (File m bytes))"
    using writable(1) by (rule os_Stat_lookup)
  have "open_record lib (files st) ?root ?A ''.checker/init'' = Inr record"
    using old by (simp add: Decrypt_open_record)
  from open_record_Inr_file [OF this] node have readable: "owner_read m"
    by simp
  from json obtain jsonData where
    js: "json_Marshal lib validationData = Inr jsonData"
        "json_Unmarshal lib jsonData zero_Data = (None, validationData)"
    unfolding json_roundtrip_def by blast
  have "?B \<noteq> []" using new(1) by auto
  with cipher(1) obtain armored where
    ct: "pgp_Encrypt lib ?B jsonData = Inr armored" "pgp_Decrypt lib ?B armored = Inr jsonData"
    unfolding cipher_roundtrip_def by blast
  have wrong: "isl (pgp_Decrypt lib ?A armored)"
    using cipher(2) ct(1) new(2) unfolding cipher_authentic_def by blast
  define st4 where "st4 = st3\<lparr>files := AList.update ?path (File m armored) (files st)\<rparr>"
  have st3_props: "files st3 = files st" "passwordFolder st3 = (passwordFolder st)\<lparr>PasswordFolder.Password := ?B\<rparr>"
    by (simp_all add: st3_def st1_def)
  have seal: "EncryptPasswordAndWriteToFile lib ''.checker/init'' validationData st3 = (None, st4)"
    using seal_existing [of st3 "''.checker/init''" m bytes lib validationData jsonData armored]
      node writable(2) js(1) ct(1)
    by (simp add: st3_props store_path_def st4_def)
  have st4_props: "files st4 = AList.update ?path (File m armored) (files st)"
    "passwordFolder st4 = (passwordFolder st)\<lparr>PasswordFolder.Password := ?B\<rparr>"
    by (simp_all add: st4_def st3_props)
  have after: "open_record lib (AList.update ?path (File m armored) (files st)) ?root password
      ''.checker/init'' =
      (case pgp_Decrypt lib password armored of
         Inl err \<Rightarrow> Inl err
       | Inr decrypted \<Rightarrow> Inr (snd (json_Unmarshal lib decrypted zero_Data)))" for password
    using open_record_after_seal [of "files st" ?root "''.checker/init''" _ m lib armored password]
      node readable
    by simp
  have open_new: "DecryptPasswordFromFile lib ''.checker/init'' st4 = Inr validationData"
    using ct(2) js(2) by (simp add: Decrypt_open_record st4_props after)
  define st' where "st' = print_all
     [clear_screen,
      check_mark @ '' Master password changed successfully!'' @ newline @ newline,
      ''Your new master password is now active.'' @ newline,
      ''You will need to use the new password for future logins.'' @ newline @ newline,
      press_enter] st4"
  have run: "ChangeMasterPassword lib (Inr form) st = ((True, None), st')"
    using form open1 seal open_new
    by (simp add: ChangeMasterPassword_def Let_def st1_def [symmetric] split_beta
          st3_def [symmetric] now_def [symmetric] validationData_def [symmetric] st'_def)
  have p: "PasswordFolder.Password (passwordFolder st') = ?B"
    by (simp add: st'_def st4_props)
  have o1: "DecryptPasswordFromFile lib ''.checker/init'' (set_Password ?B st') = Inr validationData"
    using ct(2) js(2) by (simp add: Decrypt_open_record st'_def st4_props after)
  have o2: "isl (DecryptPasswordFromFile lib ''.checker/init'' (set_Password ?A st'))"
    using wrong
    by (auto simp: Decrypt_open_record st'_def st4_props after split: sum.splits)
  have "Data.Password validationData = Data.Password record"
    by (simp add: validationData_def)
  with run p o1 o2 show ?thesis by blast
qed

text \<open>The rotation from \<open>correcthorse\<close> to \<open>batterystaple\<close> on the bootstrapped store.\<close>

theorem C1_rotation_witness:
  "\<exists>st' record'.
     ChangeMasterPassword ref_lib
       (Inr \<lparr>submitted = True, cancelled = False, currentPass = ''correcthorse'',
             newPass = ''batterystaple'', confirmPass = ''batterystaple''\<rparr>)
       bootstrapped_store = ((True, None), st') \<and>
     PasswordFolder.Password (passwordFolder st') = ''batterystaple'' \<and>
     DecryptPasswordFromFile ref_lib ''.checker/init'' (set_Password ''batterystaple'' st') = Inr record' \<and>
     Data.Password record' = ''the quick brown fox jumps'' \<and>
     isl (DecryptPasswordFromFile ref_lib ''.checker/init'' (set_Password ''correcthorse'' st'))"
proof -
  let ?form = "\<lparr>submitted = True, cancelled = False, currentPass = ''correcthorse'',
                 newPass = ''batterystaple'', confirmPass = ''batterystaple''\<rparr>"
  have old: "DecryptPasswordFromFile ref_lib ''.checker/init''
               (set_Password (currentPass ?form) bootstrapped_store) = Inr example_validation"
    by (simp add: open_bootstrapped)
  have w: "os_Stat (files bootstrapped_store)
             (FolderLocation (passwordFolder bootstrapped_store) @ ''/.checker/init.gpg'') =
             Inr (File 0x1A4 (ref_seal ''correcthorse'' example_validation))"
    "owner_write (0x1A4 :: FileMode)"
    by code_simp+
  have "submitted ?form" "\<not> cancelled ?form" "8 \<le> length (newPass ?form)"
    "currentPass ?form \<noteq> newPass ?form"
    by simp_all
  from C1_rotation [OF ref_lib_contracts this old w] show ?thesis
    by (simp add: example_validation_def)
qed

section \<open>Properties of the catalog\<close>

lemma entries_loop_names:
  "map Filename (entries_loop lib st ds entries) =
     map Filename entries @
     map (\<lambda>name. TrimSuffix name ''.gpg'')
       (filter (listed lib st) (map Name (filter (\<lambda>d. \<not> IsDir d) ds)))"
  by (induction ds arbitrary: entries) (auto simp: listed_def Let_def split: sum.splits)

lemma Decrypt_ignores_Dirs [simp]:
  "DecryptPasswordFromFile lib fileName (st\<lparr>passwordFolder := (passwordFolder st)\<lparr>Dirs := ds\<rparr>\<rparr>) =
     DecryptPasswordFromFile lib fileName st"
  by (simp add: Decrypt_open_record)

lemma listed_ignores_Dirs [simp]:
  "listed lib (st\<lparr>passwordFolder := (passwordFolder st)\<lparr>Dirs := ds\<rparr>\<rparr>) = listed lib st"
  by (rule ext) (simp add: listed_def)

lemma getAllPasswordEntries_names:
  assumes "os_ReadDir (files st) (FolderLocation (passwordFolder st)) = Inr listing"
  shows "\<exists>entries st'. getAllPasswordEntries lib st = (Inr entries, st') \<and>
           map Filename entries =
             map (\<lambda>name. TrimSuffix name ''.gpg'')
               (filter (listed lib st) (map Name (filter (\<lambda>d. \<not> IsDir d) listing)))"
  using assms
  by (simp add: getAllPasswordEntries_def RefreshDirectoryListing_def entries_loop_names)

lemma TrimSuffix_append [simp]: "TrimSuffix (k @ suf) suf = k"
  by (simp add: TrimSuffix_def HasSuffix_def)

lemma HasSuffix_append [simp]: "HasSuffix (k @ suf) suf"
  by (simp add: HasSuffix_def)

text \<open>
  The keys that \<open>GenerateFilename\<close> makes hold no dot, so none of them is a name that the
  loop skips as reserved.
\<close>

lemma Contains_split: "Contains s sub \<Longrightarrow> \<exists>pre post. s = pre @ sub @ post"
proof (induction s)
  case Nil
  then show ?case by simp
next
  case (Cons c cs)
  show ?case
  proof (cases "take (length sub) (c # cs) = sub")
    case True
    then have "c # cs = [] @ sub @ drop (length sub) (c # cs)"
      by (metis append_Nil append_take_drop_id)
    then show ?thesis by blast
  next
    case False
    with Cons.prems have "Contains cs sub" by simp
    with Cons.IH obtain pre post where "cs = pre @ sub @ post" by blast
    then have "c # cs = (c # pre) @ sub @ post" by simp
    then show ?thesis by blast
  qed
qed

lemma no_checker_without_dot:
  assumes "CHR ''.'' \<notin> set k"
  shows "\<not> Contains (k @ ''.gpg'') ''.checker''"
proof
  assume "Contains (k @ ''.gpg'') ''.checker''"
  then obtain pre post where eq: "k @ ''.gpg'' = pre @ ''.checker'' @ post"
    using Contains_split by blast
  then obtain us where
    "(k = pre @ us \<and> us @ ''.gpg'' = ''.checker'' @ post) \<or>
     (k @ us = pre \<and> ''.gpg'' = us @ ''.checker'' @ post)"
    by (auto simp: append_eq_append_conv2)
  then show False
  proof
    assume h: "k = pre @ us \<and> us @ ''.gpg'' = ''.checker'' @ post"
    show False
    proof (cases us)
      case Nil
      with h show False by simp
    next
      case (Cons u us')
      with h have "u = CHR ''.''" by simp
      with Cons h assms show False by simp
    qed
  next
    assume h: "k @ us = pre \<and> ''.gpg'' = us @ ''.checker'' @ post"
    then have "length ''.gpg'' = length (us @ ''.checker'' @ post)" by simp
    then show False by simp
  qed
qed

lemma lower_byte_not_dot: "word_char c \<Longrightarrow> lower_byte c \<noteq> CHR ''.''"
proof -
  assume w: "word_char c"
  show ?thesis
  proof (cases "byte_in c 0x41 0x5A")
    case True
    then have "(of_char c :: nat) + 32 < 256" and "(of_char c :: nat) + 32 \<noteq> 46"
      by (auto simp: byte_in_def)
    then have ne: "(of_char c + 32) mod 256 \<noteq> (46::nat)"
      by simp
    have "char_of (of_char c + (32::nat)) \<noteq> CHR ''.''"
    proof
      assume "char_of (of_char c + (32::nat)) = CHR ''.''"
      then have "(of_char (char_of (of_char c + (32::nat))) :: nat) = of_char (CHR ''.'')"
        by (rule arg_cong)
      with ne show False by simp
    qed
    with True show ?thesis by (simp add: lower_byte_def)
  next
    case False
    with w show ?thesis
      by (auto simp: lower_byte_def word_char_def byte_in_def)
  qed
qed

lemma cleanName_no_dot: "CHR ''.'' \<notin> set (cleanName siteName)"
proof
  assume "CHR ''.'' \<in> set (cleanName siteName)"
  then have "CHR ''.'' \<in> set (ToLower (ReplaceAllString siteName))"
    by (auto simp: cleanName_def Let_def dest: in_set_takeD split: if_splits)
  then obtain c where "c \<in> set (ReplaceAllString siteName)" "lower_byte c = CHR ''.''"
    by (auto simp: ToLower_def)
  then show False
    using ReplaceAllString_word_chars lower_byte_not_dot by blast
qed

lemma digit_char_not_dot: "digit_char d \<noteq> CHR ''.''"
proof -
  have "(of_char (digit_char d) :: nat) \<ge> 48"
    by (simp add: of_char_digit_char)
  then show ?thesis by auto
qed

lemma zero_pad_no_dot: "CHR ''.'' \<notin> set (zero_pad w n)"
  using set_zero_pad digit_char_not_dot by metis

lemma GenerateFilename_no_dot: "CHR ''.'' \<notin> set (GenerateFilename now siteName)"
  using cleanName_no_dot zero_pad_no_dot
  by (auto simp: GenerateFilename_def Format_stamp_def Format_date_def Format_clock_def)

lemma GenerateFilename_not_reserved:
  "GenerateFilename now siteName \<noteq> ''init'' \<and>
   \<not> Contains (GenerateFilename now siteName @ ''.gpg'') ''.checker''"
proof -
  have "CHR ''_'' \<in> set (GenerateFilename now siteName)"
    by (simp add: GenerateFilename_def)
  moreover have "CHR ''_'' \<notin> set ''init''" by simp
  ultimately have "GenerateFilename now siteName \<noteq> ''init''" by metis
  with no_checker_without_dot [OF GenerateFilename_no_dot] show ?thesis by simp
qed

text \<open>
  Claim C4. The root of the store lists, next to its directories, the files of \<open>N\<close>
  records that open under the password of the session and one file that does not; the
  keys of the records are not the reserved names (no key of \<open>GenerateFilename\<close> is:
  lemma \<open>GenerateFilename_not_reserved\<close>). Then \<open>getAllPasswordEntries\<close> returns
  no error, its entries are exactly the \<open>N\<close> records (each once), and neither the
  validation record \<open>.checker/init\<close> nor \<open>init\<close> is among them.
\<close>

theorem C4_catalog_skips_undecryptable:
  assumes dir: "os_ReadDir (files st) (FolderLocation (passwordFolder st)) = Inr listing"
    and names: "mset (map Name (filter (\<lambda>d. \<not> IsDir d) listing)) =
                  mset (map (\<lambda>k. k @ ''.gpg'') keys) + {#bad @ ''.gpg''#}"
    and good: "\<forall>k\<in>set keys. k \<noteq> ''init'' \<and> \<not> Contains (k @ ''.gpg'') ''.checker'' \<and>
                 \<not> isl (DecryptPasswordFromFile lib k st)"
    and bad: "isl (DecryptPasswordFromFile lib bad st)"
  shows "\<exists>entries st'.
           getAllPasswordEntries lib st = (Inr entries, st') \<and>
           mset (map Filename entries) = mset keys \<and>
           length entries = length keys \<and>
           ''.checker/init'' \<notin> set (map Filename entries) \<and>
           ''init'' \<notin> set (map Filename entries)"
proof -
  let ?gpg = "\<lambda>k. k @ ''.gpg''" and ?trim = "\<lambda>name. TrimSuffix name ''.gpg''"
  let ?names = "map Name (filter (\<lambda>d. \<not> IsDir d) listing)"
  from getAllPasswordEntries_names [OF dir, of lib] obtain entries st' where
    run: "getAllPasswordEntries lib st = (Inr entries, st')"
    and fn: "map Filename entries = map ?trim (filter (listed lib st) ?names)"
    by blast
  have keep: "listed lib st (?gpg k)" if "k \<in> set keys" for k
    using good that by (simp add: listed_def)
  have drop: "\<not> listed lib st (?gpg bad)"
    using bad by (simp add: listed_def)
  have "mset (filter (listed lib st) ?names) = filter_mset (listed lib st) (mset ?names)"
    by simp
  also have "\<dots> = filter_mset (listed lib st) (mset (map ?gpg keys) + {#?gpg bad#})"
    by (simp only: names)
  also have "\<dots> = filter_mset (listed lib st) (mset (map ?gpg keys)) +
                   filter_mset (listed lib st) {#?gpg bad#}"
    by (rule filter_union_mset)
  also have "filter_mset (listed lib st) (mset (map ?gpg keys)) = mset (map ?gpg keys)"
    using keep by (simp add: filter_mset_eq_conv)
  also have "filter_mset (listed lib st) {#?gpg bad#} = {#}"
    using drop by simp
  finally have kept: "mset (filter (listed lib st) ?names) = mset (map ?gpg keys)"
    by simp
  have "mset (map Filename entries) = image_mset ?trim (mset (filter (listed lib st) ?names))"
    by (simp add: fn)
  also have "\<dots> = image_mset ?trim (mset (map ?gpg keys))"
    by (simp only: kept)
  also have "\<dots> = mset keys"
    by (simp add: multiset.map_comp comp_def)
  finally have ms: "mset (map Filename entries) = mset keys" .
  then have len: "length entries = length keys"
    by (metis length_map size_mset)
  from ms have st: "set (map Filename entries) = set keys"
    by (rule mset_eq_setD)
  have "Contains (''.checker/init'' @ ''.gpg'') ''.checker''"
    by simp
  with good have "''.checker/init'' \<notin> set keys" by blast
  moreover from good have "''init'' \<notin> set keys" by blast
  ultimately show ?thesis using run ms len st by auto
qed

lemma catalog_listing:
  "os_ReadDir (files catalog_store) (FolderLocation (passwordFolder catalog_store)) =
     Inr [\<lparr>Name = ''.checker'', IsDir = True\<rparr>,
          \<lparr>Name = ''foreign_20240101_000000.gpg'', IsDir = False\<rparr>,
          \<lparr>Name = ''github_20240830_143045.gpg'', IsDir = False\<rparr>,
          \<lparr>Name = ''gmail_20240830_143022.gpg'', IsDir = False\<rparr>]"
  by code_simp

lemma catalog_opens:
  "\<not> isl (DecryptPasswordFromFile ref_lib ''github_20240830_143045'' catalog_store)"
  "\<not> isl (DecryptPasswordFromFile ref_lib ''gmail_20240830_143022'' catalog_store)"
  "isl (DecryptPasswordFromFile ref_lib ''foreign_20240101_000000'' catalog_store)"
  by code_simp+

text \<open>The catalog of the example store: two records, the foreign file left out.\<close>

theorem C4_catalog_skips_undecryptable_witness:
  "\<exists>entries st'.
     getAllPasswordEntries ref_lib catalog_store = (Inr entries, st') \<and>
     mset (map Filename entries) = {#''github_20240830_143045'', ''gmail_20240830_143022''#} \<and>
     length entries = 2"
proof -
  let ?keys = "[''github_20240830_143045'', ''gmail_20240830_143022'']"
  have names: "mset (map Name (filter (\<lambda>d. \<not> IsDir d)
      [\<lparr>Name = ''.checker'', IsDir = True\<rparr>,
       \<lparr>Name = ''foreign_20240101_000000.gpg'', IsDir = False\<rparr>,
       \<lparr>Name = ''github_20240830_143045.gpg'', IsDir = False\<rparr>,
       \<lparr>Name = ''gmail_20240830_143022.gpg'', IsDir = False\<rparr>])) =
      mset (map (\<lambda>k. k @ ''.gpg'') ?keys) + {#''foreign_20240101_000000'' @ ''.gpg''#}"
    by simp
  have good: "\<forall>k\<in>set ?keys. k \<noteq> ''init'' \<and> \<not> Contains (k @ ''.gpg'') ''.checker'' \<and>
                \<not> isl (DecryptPasswordFromFile ref_lib k catalog_store)"
    using catalog_opens(1,2) by simp
  from C4_catalog_skips_undecryptable [OF catalog_listing names good catalog_opens(3)]
  show ?thesis by auto
qed

end
